theory Spec2Isabelle
  imports Main "HOL-Library.AList"
begin

section \<open>Entity model (storage.ts)\<close>

text \<open>
  The TypeScript interfaces of \<^verbatim>\<open>storage.ts\<close> become records. Two records may not
  share a field name, so every field carries a prefix naming its interface
  (\<^verbatim>\<open>App.name\<close> is \<open>app_name\<close>). An optional property (\<^verbatim>\<open>p?: T\<close>) is a \<open>T option\<close>,
  with \<open>None\<close> for an absent (or null) property. The generated \<^verbatim>\<open>id\<close> of an entity is
  optional in the interface only for the argument of the \<^verbatim>\<open>add*\<close> methods, which
  overwrite it; stored entities and the arguments of the \<^verbatim>\<open>update*\<close> methods carry
  it, so it is a plain string here. Numbers are integers.

  A JavaScript object used as a dictionary with caller-chosen keys whose enumeration
  order is observable (\<^verbatim>\<open>CollaboratorMap\<close>) is an association list in insertion order:
  \<open>map_of\<close> reads a key, \<open>AList.update\<close> assigns one (in place when it exists, at the
  end otherwise) and \<open>AList.delete\<close> deletes one. The dictionaries of the store, keyed
  by generated ids, are maps.

  Lookups are lookups of own properties. Identifiers are the strings the store
  generates and the keys of the e-mail index are addresses in lower case, so neither is
  taken to be the name of a property that a JavaScript object inherits from
  \<^verbatim>\<open>Object.prototype\<close>. In a collaborator map such a name (\<^verbatim>\<open>__proto__\<close>,
  \<^verbatim>\<open>constructor\<close>) reads an inherited object that has no \<^verbatim>\<open>permission\<close>, which
  \<^verbatim>\<open>isOwner\<close> and \<^verbatim>\<open>isCollaborator\<close> answer as they answer a missing entry; the model
  has no entry there.
\<close>

datatype ErrorCode =
  ConnectionFailed | NotFound | AlreadyExists | TooLarge | Expired | Invalid | Other

text \<open>
  A promise is rejected with a \<^verbatim>\<open>StorageError\<close> (a code and an optional message), or
  an exception escapes: a \<^verbatim>\<open>TypeError\<close> of the runtime (a property read on
  \<^verbatim>\<open>undefined\<close> or \<^verbatim>\<open>null\<close>) or an \<^verbatim>\<open>Error\<close> the code throws itself.
\<close>

datatype failure = StorageError ErrorCode "string option" | TypeError | Error string

type_synonym 'a promise = "failure + 'a"

definition Permissions_Owner :: string where
  "Permissions_Owner = ''Owner''"

definition Permissions_Collaborator :: string where
  "Permissions_Collaborator = ''Collaborator''"

record Account =
  acc_azureAdId :: "string option"
  acc_createdTime :: int
  acc_email :: string
  acc_gitHubId :: "string option"
  acc_id :: string
  acc_microsoftId :: "string option"
  acc_name :: string

record CollaboratorProperties =
  collab_accountId :: "string option"
  collab_isCurrentAccount :: "bool option"
  collab_permission :: string

type_synonym CollaboratorMap = "(string \<times> CollaboratorProperties) list"

record App =
  app_collaborators :: "CollaboratorMap option"
  app_createdTime :: int
  app_id :: string
  app_name :: string

record BlobInfo =
  blob_size :: int
  blob_url :: string

record Package =
  pkg_appVersion :: string
  pkg_blobUrl :: string
  pkg_description :: string
  pkg_diffPackageMap :: "(string \<times> BlobInfo) list option"
  pkg_isDisabled :: bool
  pkg_isMandatory :: bool
  pkg_label :: "string option"
  pkg_manifestBlobUrl :: string
  pkg_originalDeployment :: "string option"
  pkg_originalLabel :: "string option"
  pkg_packageHash :: string
  pkg_releasedBy :: "string option"
  pkg_releaseMethod :: "string option"
  pkg_rollout :: "int option"
  pkg_size :: int
  pkg_uploadTime :: int

record Deployment =
  dep_createdTime :: int
  dep_id :: string
  dep_name :: string
  dep_key :: string
  dep_package :: "Package option"

text \<open>
  The store keeps one more property on a deployment than the interface declares
  (\<^verbatim>\<open>(<any>deployment).packageHistory\<close>, set by \<^verbatim>\<open>addDeployment\<close>).
\<close>

record StoredDeployment = Deployment +
  dep_packageHistory :: "Package list"

record AccessKey =
  key_createdBy :: string
  key_createdTime :: int
  key_expires :: int
  key_description :: "string option"
  key_friendlyName :: string
  key_id :: string
  key_isSession :: "bool option"
  key_name :: string

subsection \<open>Helpers of storage.ts\<close>

text \<open>
  \<^verbatim>\<open>clone\<close> is a round trip through JSON: the identity on the records above (an absent
  property stays absent).
\<close>

definition clone :: "'a \<Rightarrow> 'a" where
  "clone source = source"

text \<open>
  \<^verbatim>\<open>merge(original, updates)\<close> assigns every property the update has. An update of an
  app that went through \<^verbatim>\<open>clone\<close> has every required property, and \<^verbatim>\<open>collaborators\<close>
  when it is present.
\<close>

definition merge_App :: "App \<Rightarrow> App \<Rightarrow> App" where
  "merge_App original updates =
     original\<lparr>app_collaborators :=
                 (case app_collaborators updates of
                    None \<Rightarrow> app_collaborators original
                  | Some cs \<Rightarrow> Some cs),
               app_createdTime := app_createdTime updates,
               app_id := app_id updates,
               app_name := app_name updates\<rparr>"

definition merge_Deployment :: "StoredDeployment \<Rightarrow> Deployment \<Rightarrow> StoredDeployment" where
  "merge_Deployment original updates =
     original\<lparr>dep_createdTime := dep_createdTime updates,
               dep_id := dep_id updates,
               dep_name := dep_name updates,
               dep_key := dep_key updates,
               dep_package :=
                 (case dep_package updates of
                    None \<Rightarrow> dep_package original
                  | Some p \<Rightarrow> Some p)\<rparr>"

definition isOwnedByCurrentUser :: "App \<Rightarrow> bool" where
  "isOwnedByCurrentUser app =
     (case app_collaborators app of
        None \<Rightarrow> False
      | Some cs \<Rightarrow>
          list_ex (\<lambda>(email, collaborator).
                     collab_isCurrentAccount collaborator = Some True \<and>
                     collab_permission collaborator = Permissions_Owner) cs)"

definition isPrototypePollutionKey :: "string \<Rightarrow> bool" where
  "isPrototypePollutionKey key = (key \<in> set [''__proto__'', ''constructor'', ''prototype''])"

definition storageError :: "ErrorCode \<Rightarrow> string option \<Rightarrow> failure" where
  "storageError errorCode message = StorageError errorCode message"

subsection \<open>Strings of the runtime\<close>

text \<open>\<^verbatim>\<open>s.split(sep)\<close> for a separator of one character: never an empty array.\<close>

fun split_sep :: "char \<Rightarrow> string \<Rightarrow> string list" where
  "split_sep sep [] = [[]]"
| "split_sep sep (c # cs) =
     (if c = sep then [] # split_sep sep cs
      else (case split_sep sep cs of
              [] \<Rightarrow> [[c]]
            | w # ws \<Rightarrow> (c # w) # ws))"

text \<open>\<^verbatim>\<open>s.toLowerCase()\<close> on ASCII letters; every other byte is left as it is.\<close>

definition toLowerCaseChar :: "char \<Rightarrow> char" where
  "toLowerCaseChar c =
     (case map_of (zip ''ABCDEFGHIJKLMNOPQRSTUVWXYZ'' ''abcdefghijklmnopqrstuvwxyz'') c of
        Some d \<Rightarrow> d
      | None \<Rightarrow> c)"

definition toLowerCase :: "string \<Rightarrow> string" where
  "toLowerCase s = map toLowerCaseChar s"

text \<open>The decimal digits of a number, as string concatenation (\<^verbatim>\<open>"v" + n\<close>) writes them.\<close>

fun nat_to_string :: "nat \<Rightarrow> string" where
  "nat_to_string n =
     (if n < 10 then [''0123456789'' ! n]
      else nat_to_string (n div 10) @ [''0123456789'' ! (n mod 10)])"

declare nat_to_string.simps [simp del]

subsection \<open>NameResolver: matching by name\<close>

text \<open>
  A list the store returns may hold \<^verbatim>\<open>null\<close> where an index names an id that is
  not stored (\<open>None\<close> below); reading a property of such an element throws.

  The loop of \<^verbatim>\<open>findAppByName\<close> for a query qualified by an owner's e-mail.
\<close>

fun findAppByOwner :: "App list \<Rightarrow> string \<Rightarrow> App option promise" where
  "findAppByOwner [] ownerEmail = Inr None"
| "findAppByOwner (app # candidates) ownerEmail =
     (case app_collaborators app of
        None \<Rightarrow> Inl TypeError
      | Some cs \<Rightarrow>
          (case map_of cs ownerEmail of
             None \<Rightarrow> findAppByOwner candidates ownerEmail
           | Some c \<Rightarrow>
               if collab_permission c = Permissions_Owner then Inr (Some app)
               else findAppByOwner candidates ownerEmail))"

definition findAppByName :: "App option list \<Rightarrow> string \<Rightarrow> App option promise" where
  "findAppByName apps displayName =
     (let components = split_sep (CHR '':'') displayName in
      case (if length components = 1 then Some (None, components ! 0)
            else if length components = 2 then Some (Some (components ! 0), components ! 1)
            else None) of
        None \<Rightarrow> Inr None
      | Some (ownerEmail, rawName) \<Rightarrow>
          (case those apps of
             None \<Rightarrow> Inl TypeError
           | Some as \<Rightarrow>
               (let candidates = filter (\<lambda>app. app_name app = rawName) as in
                if ownerEmail \<noteq> None \<and> ownerEmail \<noteq> Some []
                then findAppByOwner candidates (the ownerEmail)
                else if length candidates = 1 then Inr (Some (candidates ! 0))
                else Inr (find isOwnedByCurrentUser candidates))))"

text \<open>
  The general overload of \<^verbatim>\<open>findByName\<close>, on apps: an app has no \<^verbatim>\<open>friendlyName\<close>,
  so only the name can match.
\<close>

fun findByName_general :: "App option list \<Rightarrow> string \<Rightarrow> App option promise" where
  "findByName_general [] name = Inr None"
| "findByName_general (None # items) name = Inl TypeError"
| "findByName_general (Some item # items) name =
     (if app_name item = name then Inr (Some item) else findByName_general items name)"

definition findByName :: "App option list \<Rightarrow> string \<Rightarrow> App option promise" where
  "findByName items name =
     (case items of
        [] \<Rightarrow> Inr None
      | None # _ \<Rightarrow> Inl TypeError
      | Some first # _ \<Rightarrow>
          if app_collaborators first \<noteq> None then findAppByName items name
          else findByName_general items name)"

definition errorMessageOverride :: "ErrorCode \<Rightarrow> string \<Rightarrow> failure \<Rightarrow> failure" where
  "errorMessageOverride code message error =
     (case error of
        StorageError c m \<Rightarrow> if c = code then StorageError c (Some message) else error
      | _ \<Rightarrow> error)"

definition appDoesNotExist :: "string \<Rightarrow> string" where
  "appDoesNotExist name = ''App '' @ [CHR 0x22] @ name @ [CHR 0x22] @ '' does not exist.''"

section \<open>The store (s3-storage.ts)\<close>

record S3Storage =
  NextIdNumber :: nat
  accounts :: "string \<rightharpoonup> Account"
  apps :: "string \<rightharpoonup> App"
  deployments :: "string \<rightharpoonup> StoredDeployment"
  accessKeys :: "string \<rightharpoonup> AccessKey"
  accountToAppsMap :: "string \<rightharpoonup> string list"
  appToAccountMap :: "string \<rightharpoonup> string"
  emailToAccountMap :: "string \<rightharpoonup> string"
  appToDeploymentsMap :: "string \<rightharpoonup> string list"
  deploymentToAppMap :: "string \<rightharpoonup> string"
  deploymentKeyToDeploymentMap :: "string \<rightharpoonup> string"
  accountToAccessKeysMap :: "string \<rightharpoonup> string list"
  accessKeyToAccountMap :: "string \<rightharpoonup> string"

text \<open>
  Modelled from the spec: \<^verbatim>\<open>JsonStorage.getRejectedPromise\<close> and
  \<^verbatim>\<open>JsonStorage.CollaboratorNotFound\<close>, which \<^verbatim>\<open>s3-storage.ts\<close> calls and no file of the
  repository declares. The spec has every operation fail with an error code, so the
  call is read as the class's own \<^verbatim>\<open>S3Storage.getRejectedPromise\<close>, which rejects with
  \<^verbatim>\<open>storageError(errorCode, message)\<close>, and the constant as the class's own.
\<close>

definition getRejectedPromise :: "ErrorCode \<Rightarrow> string option \<Rightarrow> 'a promise" where
  "getRejectedPromise errorCode message = Inl (storageError errorCode message)"

definition CollaboratorNotFound :: string where
  "CollaboratorNotFound =
     ''The specified e-mail address doesn'' @ [CHR 0x27] @ ''t represent a registered user''"

definition newId :: "S3Storage \<Rightarrow> string \<times> S3Storage" where
  "newId st = (''id_'' @ nat_to_string (NextIdNumber st), st\<lparr>NextIdNumber := NextIdNumber st + 1\<rparr>)"

subsection \<open>Private helpers\<close>

definition addIsCurrentAccountProperty :: "App \<Rightarrow> string \<Rightarrow> App" where
  "addIsCurrentAccountProperty app accountId =
     app\<lparr>app_collaborators :=
           map_option
             (map (\<lambda>(email, c).
                (email, if collab_accountId c = Some accountId
                        then c\<lparr>collab_isCurrentAccount := Some True\<rparr> else c)))
             (app_collaborators app)\<rparr>"

definition removeIsCurrentAccountProperty :: "App \<Rightarrow> App" where
  "removeIsCurrentAccountProperty app =
     app\<lparr>app_collaborators :=
           map_option
             (map (\<lambda>(email, c).
                (email, if collab_isCurrentAccount c = Some True
                        then c\<lparr>collab_isCurrentAccount := None\<rparr> else c)))
             (app_collaborators app)\<rparr>"

definition isOwner :: "CollaboratorMap option \<Rightarrow> string \<Rightarrow> bool" where
  "isOwner list email =
     (case list of
        None \<Rightarrow> False
      | Some cs \<Rightarrow>
          (case map_of cs email of
             None \<Rightarrow> False
           | Some c \<Rightarrow> collab_permission c = Permissions_Owner))"

definition isCollaborator :: "CollaboratorMap option \<Rightarrow> string \<Rightarrow> bool" where
  "isCollaborator list email =
     (case list of
        None \<Rightarrow> False
      | Some cs \<Rightarrow>
          (case map_of cs email of
             None \<Rightarrow> False
           | Some c \<Rightarrow> collab_permission c = Permissions_Collaborator))"

text \<open>
  \<^verbatim>\<open>indexOf\<close> and \<^verbatim>\<open>splice(index, 1)\<close> remove the first occurrence; both helpers throw
  when the account has no list of apps.
\<close>

definition removeAppPointer :: "S3Storage \<Rightarrow> string \<Rightarrow> string \<Rightarrow> S3Storage promise" where
  "removeAppPointer st accountId appId =
     (case accountToAppsMap st accountId of
        None \<Rightarrow> Inl TypeError
      | Some accountApps \<Rightarrow>
          Inr (st\<lparr>accountToAppsMap := (accountToAppsMap st)(accountId \<mapsto> remove1 appId accountApps)\<rparr>))"

definition addAppPointer :: "S3Storage \<Rightarrow> string \<Rightarrow> string \<Rightarrow> S3Storage promise" where
  "addAppPointer st accountId appId =
     (case accountToAppsMap st accountId of
        None \<Rightarrow> Inl TypeError
      | Some accountApps \<Rightarrow>
          Inr (st\<lparr>accountToAppsMap := (accountToAppsMap st)
                     (accountId \<mapsto> (if appId \<in> set accountApps then accountApps
                                   else accountApps @ [appId]))\<rparr>))"

subsection \<open>Apps\<close>

text \<open>
  \<^verbatim>\<open>addApp\<close> enters the new id in the account's list of apps with the test and the
  \<^verbatim>\<open>push\<close> that \<^verbatim>\<open>addAppPointer\<close> has, written out in the source; the id is taken (and
  the counter advanced) before the list is read.
\<close>

definition addApp :: "S3Storage \<Rightarrow> string \<Rightarrow> App \<Rightarrow> App promise \<times> S3Storage" where
  "addApp st accountId app =
     (case accounts st accountId of
        None \<Rightarrow> (getRejectedPromise NotFound None, st)
      | Some account \<Rightarrow>
          (let (newAppId, st1) = newId st;
               app1 = (clone app)\<lparr>app_id := newAppId,
                        app_collaborators :=
                          Some [(acc_email account,
                                 \<lparr>collab_accountId = Some accountId,
                                  collab_isCurrentAccount = None,
                                  collab_permission = ''Owner''\<rparr>)]\<rparr>
           in case addAppPointer st1 accountId newAppId of
                Inl e \<Rightarrow> (Inl e, st1)
              | Inr st2 \<Rightarrow>
                  (Inr (clone app1),
                   st2\<lparr>appToDeploymentsMap :=
                         (if appToDeploymentsMap st2 newAppId = None
                          then (appToDeploymentsMap st2)(newAppId \<mapsto> [])
                          else appToDeploymentsMap st2),
                       appToAccountMap := (appToAccountMap st2)(newAppId \<mapsto> accountId),
                       apps := (apps st2)(newAppId \<mapsto> app1)\<rparr>)))"

definition getApps :: "S3Storage \<Rightarrow> string \<Rightarrow> App option list promise" where
  "getApps st accountId =
     (case accountToAppsMap st accountId of
        Some appIds \<Rightarrow>
          Inr (map (\<lambda>app. map_option (\<lambda>a. addIsCurrentAccountProperty a accountId) app)
                 (clone (map (\<lambda>id. apps st id) appIds)))
      | None \<Rightarrow> getRejectedPromise NotFound None)"

definition getApp :: "S3Storage \<Rightarrow> string \<Rightarrow> string \<Rightarrow> App promise" where
  "getApp st accountId appId =
     (case (accounts st accountId, apps st appId) of
        (Some _, Some app) \<Rightarrow> Inr (addIsCurrentAccountProperty (clone app) accountId)
      | _ \<Rightarrow> getRejectedPromise NotFound None)"

text \<open>The parameter \<^verbatim>\<open>ensureIsOwner\<close> of \<^verbatim>\<open>updateApp\<close> is never read.\<close>

definition updateApp :: "S3Storage \<Rightarrow> string \<Rightarrow> App \<Rightarrow> unit promise \<times> S3Storage" where
  "updateApp st accountId app =
     (case (accounts st accountId, apps st (app_id app)) of
        (Some _, Some stored) \<Rightarrow>
          (Inr (),
           st\<lparr>apps := (apps st)
                 (app_id app \<mapsto> merge_App stored (removeIsCurrentAccountProperty (clone app)))\<rparr>)
      | _ \<Rightarrow> (getRejectedPromise NotFound None, st))"

definition transferApp ::
  "S3Storage \<Rightarrow> string \<Rightarrow> string \<Rightarrow> string \<Rightarrow> unit promise \<times> S3Storage" where
  "transferApp st accountId appId email =
     (if isPrototypePollutionKey email
      then (getRejectedPromise Invalid (Some ''Invalid email parameter''), st)
      else case getApp st accountId appId of
        Inl e \<Rightarrow> (Inl e, st)
      | Inr app \<Rightarrow>
         (case accounts st accountId of
            None \<Rightarrow> (Inl TypeError, st)
          | Some account \<Rightarrow>
             (let requesterEmail = acc_email account in
              case emailToAccountMap st (toLowerCase email) of
                None \<Rightarrow> (getRejectedPromise NotFound (Some CollaboratorNotFound), st)
              | Some targetOwnerAccountId \<Rightarrow>
                 if targetOwnerAccountId = []
                 then (getRejectedPromise NotFound (Some CollaboratorNotFound), st)
                 else
                  (case accounts st targetOwnerAccountId of
                     None \<Rightarrow> (Inl TypeError, st)
                   | Some target \<Rightarrow>
                      (let email1 = acc_email target in
                       if isOwner (app_collaborators app) email1
                       then (getRejectedPromise AlreadyExists None, st)
                       else
                        (case app_collaborators app of
                           None \<Rightarrow> (Inl TypeError, st)
                         | Some cs \<Rightarrow>
                            (case map_of cs requesterEmail of
                               None \<Rightarrow> (Inl TypeError, st)
                             | Some requester \<Rightarrow>
                                (let cs1 = AList.update requesterEmail
                                       (requester\<lparr>collab_permission := Permissions_Collaborator\<rparr>) cs
                                 in if isCollaborator (Some cs1) email1
                                    then
                                      updateApp st accountId
                                        (app\<lparr>app_collaborators := Some
                                           (AList.update email1
                                              ((the (map_of cs1 email1))
                                                 \<lparr>collab_permission := Permissions_Owner\<rparr>) cs1)\<rparr>)
                                    else
                                      (case addAppPointer st targetOwnerAccountId (app_id app) of
                                         Inl e \<Rightarrow> (Inl e, st)
                                       | Inr st1 \<Rightarrow>
                                           updateApp st1 accountId
                                             (app\<lparr>app_collaborators := Some
                                                (AList.update email1
                                                   \<lparr>collab_accountId = Some targetOwnerAccountId,
                                                    collab_isCurrentAccount = None,
                                                    collab_permission = Permissions_Owner\<rparr>
                                                   cs1)\<rparr>))))))))))"

subsection \<open>Collaborators\<close>

definition addCollaborator ::
  "S3Storage \<Rightarrow> string \<Rightarrow> string \<Rightarrow> string \<Rightarrow> unit promise \<times> S3Storage" where
  "addCollaborator st accountId appId email =
     (if isPrototypePollutionKey email
      then (getRejectedPromise Invalid (Some ''Invalid email parameter''), st)
      else case getApp st accountId appId of
        Inl e \<Rightarrow> (Inl e, st)
      | Inr app \<Rightarrow>
         if isCollaborator (app_collaborators app) email \<or> isOwner (app_collaborators app) email
         then (getRejectedPromise AlreadyExists None, st)
         else
          (case emailToAccountMap st (toLowerCase email) of
             None \<Rightarrow> (getRejectedPromise NotFound (Some CollaboratorNotFound), st)
           | Some targetCollaboratorAccountId \<Rightarrow>
              if targetCollaboratorAccountId = []
              then (getRejectedPromise NotFound (Some CollaboratorNotFound), st)
              else
               (case accounts st targetCollaboratorAccountId of
                  None \<Rightarrow> (Inl TypeError, st)
                | Some target \<Rightarrow>
                   (let email1 = acc_email target in
                    case app_collaborators app of
                      None \<Rightarrow> (Inl TypeError, st)
                    | Some cs \<Rightarrow>
                       (case addAppPointer st targetCollaboratorAccountId (app_id app) of
                          Inl e \<Rightarrow> (Inl e, st)
                        | Inr st1 \<Rightarrow>
                            updateApp st1 accountId
                              (app\<lparr>app_collaborators := Some
                                 (AList.update email1
                                    \<lparr>collab_accountId = Some targetCollaboratorAccountId,
                                     collab_isCurrentAccount = None,
                                     collab_permission = Permissions_Collaborator\<rparr>
                                    cs)\<rparr>))))))"

definition removeCollaborator ::
  "S3Storage \<Rightarrow> string \<Rightarrow> string \<Rightarrow> string \<Rightarrow> unit promise \<times> S3Storage" where
  "removeCollaborator st accountId appId email =
     (case getApp st accountId appId of
        Inl e \<Rightarrow> (Inl e, st)
      | Inr app \<Rightarrow>
         if isOwner (app_collaborators app) email
         then (getRejectedPromise AlreadyExists None, st)
         else
          (let targetCollaboratorAccountId = emailToAccountMap st (toLowerCase email) in
           if \<not> isCollaborator (app_collaborators app) email
              \<or> targetCollaboratorAccountId = None \<or> targetCollaboratorAccountId = Some []
           then (getRejectedPromise NotFound None, st)
           else
            (case removeAppPointer st (the targetCollaboratorAccountId) appId of
               Inl e \<Rightarrow> (Inl e, st)
             | Inr st1 \<Rightarrow>
                 updateApp st1 accountId
                   (app\<lparr>app_collaborators :=
                      map_option (AList.delete email) (app_collaborators app)\<rparr>))))"

subsection \<open>Deployments and package history\<close>

definition getDeployment ::
  "S3Storage \<Rightarrow> string \<Rightarrow> string \<Rightarrow> string \<Rightarrow> StoredDeployment promise" where
  "getDeployment st accountId appId deploymentId =
     (case (accounts st accountId, apps st appId, deployments st deploymentId) of
        (Some _, Some _, Some deployment) \<Rightarrow> Inr (clone deployment)
      | _ \<Rightarrow> getRejectedPromise NotFound None)"

definition getDeployments ::
  "S3Storage \<Rightarrow> string \<Rightarrow> string \<Rightarrow> StoredDeployment option list promise" where
  "getDeployments st accountId appId =
     (case (accounts st accountId, appToDeploymentsMap st appId) of
        (Some _, Some deploymentIds) \<Rightarrow> Inr (clone (map (\<lambda>id. deployments st id) deploymentIds))
      | _ \<Rightarrow> getRejectedPromise NotFound None)"

definition updateDeployment ::
  "S3Storage \<Rightarrow> string \<Rightarrow> string \<Rightarrow> Deployment \<Rightarrow> unit promise \<times> S3Storage" where
  "updateDeployment st accountId appId deployment =
     (case (accounts st accountId, apps st appId, deployments st (dep_id deployment)) of
        (Some _, Some _, Some stored) \<Rightarrow>
          (Inr (),
           st\<lparr>deployments := (deployments st)
                 (dep_id deployment \<mapsto>
                    merge_Deployment stored ((clone deployment)\<lparr>dep_package := None\<rparr>))\<rparr>)
      | _ \<Rightarrow> (getRejectedPromise NotFound None, st))"

definition commitPackage ::
  "S3Storage \<Rightarrow> string \<Rightarrow> string \<Rightarrow> string \<Rightarrow> Package option \<Rightarrow> Package promise \<times> S3Storage" where
  "commitPackage st accountId appId deploymentId appPackage =
     (case clone appPackage of
        None \<Rightarrow> (Inl (Error ''No package specified''), st)
      | Some pkg \<Rightarrow>
         (case (accounts st accountId, apps st appId, deployments st deploymentId) of
            (Some _, Some _, Some deployment) \<Rightarrow>
              (let history = dep_packageHistory deployment;
                   history1 = (if history = [] then []
                               else butlast history @ [(last history)\<lparr>pkg_rollout := None\<rparr>]);
                   pkg1 = pkg\<lparr>pkg_label := Some (''v'' @ nat_to_string (length history1 + 1))\<rparr>
               in (Inr (clone pkg1),
                   st\<lparr>deployments := (deployments st)
                         (deploymentId \<mapsto>
                            deployment\<lparr>dep_package := Some pkg1,
                                       dep_packageHistory := history1 @ [pkg1]\<rparr>)\<rparr>))
          | _ \<Rightarrow> (getRejectedPromise NotFound None, st)))"

definition clearPackageHistory ::
  "S3Storage \<Rightarrow> string \<Rightarrow> string \<Rightarrow> string \<Rightarrow> unit promise \<times> S3Storage" where
  "clearPackageHistory st accountId appId deploymentId =
     (case deployments st deploymentId of
        None \<Rightarrow> (getRejectedPromise NotFound None, st)
      | Some deployment \<Rightarrow>
          (Inr (),
           st\<lparr>deployments := (deployments st)
                 (deploymentId \<mapsto> deployment\<lparr>dep_package := None, dep_packageHistory := []\<rparr>)\<rparr>))"

definition updatePackageHistory ::
  "S3Storage \<Rightarrow> string \<Rightarrow> string \<Rightarrow> string \<Rightarrow> Package list \<Rightarrow> unit promise \<times> S3Storage" where
  "updatePackageHistory st accountId appId deploymentId history =
     (if history = []
      then (getRejectedPromise Invalid
              (Some ''Cannot clear package history from an update operation''), st)
      else case deployments st deploymentId of
        None \<Rightarrow> (getRejectedPromise NotFound None, st)
      | Some deployment \<Rightarrow>
          (Inr (),
           st\<lparr>deployments := (deployments st)
                 (deploymentId \<mapsto>
                    deployment\<lparr>dep_package := Some (last history),
                               dep_packageHistory := history\<rparr>)\<rparr>))"

subsection \<open>Access keys\<close>

definition getAccessKeys :: "S3Storage \<Rightarrow> string \<Rightarrow> AccessKey option list promise" where
  "getAccessKeys st accountId =
     (case accountToAccessKeysMap st accountId of
        Some accessKeyIds \<Rightarrow> Inr (clone (map (\<lambda>id. accessKeys st id) accessKeyIds))
      | None \<Rightarrow> getRejectedPromise NotFound None)"

section \<open>NameResolver.resolveApp\<close>

text \<open>
  \<^verbatim>\<open>resolveApp\<close> reads the caller's apps, matches by name, turns no match into
  \<^verbatim>\<open>NotFound\<close>, and rewrites the message of a \<^verbatim>\<open>NotFound\<close> failure. Its third
  parameter \<^verbatim>\<open>permission\<close> is never read.
\<close>

definition resolveApp :: "S3Storage \<Rightarrow> string \<Rightarrow> string \<Rightarrow> App promise" where
  "resolveApp st accountId name =
     (case (case getApps st accountId of
              Inl e \<Rightarrow> Inl e
            | Inr items \<Rightarrow>
                (case findByName items name of
                   Inl e \<Rightarrow> Inl e
                 | Inr None \<Rightarrow> Inl (storageError NotFound None)
                 | Inr (Some app) \<Rightarrow> Inr app)) of
        Inl e \<Rightarrow> Inl (errorMessageOverride NotFound (appDoesNotExist name) e)
      | Inr app \<Rightarrow> Inr app)"

section \<open>Vocabulary of the properties\<close>

text \<open>
  An app as the store returns it to a caller is the caller's own when an entry of its
  collaborator map is flagged \<^verbatim>\<open>isCurrentAccount\<close> and has the permission Owner. This is
  the specification's wording of the second tier of the resolution, stated on the
  entries themselves.
\<close>

definition flaggedOwner :: "App \<Rightarrow> bool" where
  "flaggedOwner app =
     (\<exists>(email, c) \<in> set (case app_collaborators app of None \<Rightarrow> [] | Some cs \<Rightarrow> cs).
        collab_isCurrentAccount c = Some True \<and> collab_permission c = ''Owner'')"

text \<open>
  Committing a list of packages to one deployment, one call of \<^verbatim>\<open>commitPackage\<close> after
  the other: the packages as the calls returned them and the store at the end, or
  \<open>None\<close> when a call failed.
\<close>

fun commitPackages ::
  "S3Storage \<Rightarrow> string \<Rightarrow> string \<Rightarrow> string \<Rightarrow> Package list \<Rightarrow> (Package list \<times> S3Storage) option" where
  "commitPackages st accountId appId deploymentId [] = Some ([], st)"
| "commitPackages st accountId appId deploymentId (p # ps) =
     (case commitPackage st accountId appId deploymentId (Some p) of
        (Inl e, st1) \<Rightarrow> None
      | (Inr committed, st1) \<Rightarrow>
          (case commitPackages st1 accountId appId deploymentId ps of
             None \<Rightarrow> None
           | Some (returned, st2) \<Rightarrow> Some (committed # returned, st2)))"

text \<open>The permission a collaborator map gives an e-mail, if it has an entry for it.\<close>

definition permissionOf :: "CollaboratorMap \<Rightarrow> string \<Rightarrow> string option" where
  "permissionOf cs email = map_option collab_permission (map_of cs email)"


section \<open>Example stores\<close>

text \<open>
  Three registered accounts (a@x, b@x and c@x, with ids id_0, id_1 and id_2) and no app:
  the stores below, on which the theorems are instantiated, extend this one.
\<close>

definition exampleAccount :: "string \<Rightarrow> string \<Rightarrow> Account" where
  "exampleAccount accountId email =
     \<lparr>acc_azureAdId = None, acc_createdTime = 0, acc_email = email, acc_gitHubId = None,
      acc_id = accountId, acc_microsoftId = None, acc_name = email\<rparr>"

definition examplePackage :: "string \<Rightarrow> string option \<Rightarrow> int option \<Rightarrow> Package" where
  "examplePackage packageHash label rollout =
     \<lparr>pkg_appVersion = ''1.0.0'', pkg_blobUrl = '''', pkg_description = '''',
      pkg_diffPackageMap = None, pkg_isDisabled = False, pkg_isMandatory = False,
      pkg_label = label, pkg_manifestBlobUrl = '''', pkg_originalDeployment = None,
      pkg_originalLabel = None, pkg_packageHash = packageHash, pkg_releasedBy = None,
      pkg_releaseMethod = Some ''Upload'', pkg_rollout = rollout, pkg_size = 1,
      pkg_uploadTime = 0\<rparr>"

definition exampleStore :: S3Storage where
  "exampleStore =
     \<lparr>NextIdNumber = 3,
      accounts = [''id_0'' \<mapsto> exampleAccount ''id_0'' ''a@x'',
                  ''id_1'' \<mapsto> exampleAccount ''id_1'' ''b@x'',
                  ''id_2'' \<mapsto> exampleAccount ''id_2'' ''c@x''],
      apps = Map.empty,
      deployments = Map.empty,
      accessKeys = Map.empty,
      accountToAppsMap = [''id_0'' \<mapsto> [], ''id_1'' \<mapsto> [], ''id_2'' \<mapsto> []],
      appToAccountMap = Map.empty,
      emailToAccountMap = [''a@x'' \<mapsto> ''id_0'', ''b@x'' \<mapsto> ''id_1'', ''c@x'' \<mapsto> ''id_2''],
      appToDeploymentsMap = Map.empty,
      deploymentToAppMap = Map.empty,
      deploymentKeyToDeploymentMap = Map.empty,
      accountToAccessKeysMap = Map.empty,
      accessKeyToAccountMap = Map.empty\<rparr>"

definition exampleApp :: "string \<Rightarrow> string \<Rightarrow> CollaboratorMap \<Rightarrow> App" where
  "exampleApp appId name collaborators =
     \<lparr>app_collaborators = Some collaborators, app_createdTime = 0, app_id = appId,
      app_name = name\<rparr>"

definition exampleCollaborator :: "string \<Rightarrow> string \<Rightarrow> CollaboratorProperties" where
  "exampleCollaborator accountId permission =
     \<lparr>collab_accountId = Some accountId, collab_isCurrentAccount = None,
      collab_permission = permission\<rparr>"

definition exampleDeployment :: "string \<Rightarrow> Package list \<Rightarrow> StoredDeployment" where
  "exampleDeployment deploymentId history =
     \<lparr>dep_createdTime = 0, dep_id = deploymentId, dep_name = ''Production'',
      dep_key = ''key_'' @ deploymentId,
      dep_package = (if history = [] then None else Some (last history)),
      dep_packageHistory = history\<rparr>"

text \<open>Account a@x owns app id_3, whose deployment id_4 has one release.\<close>

definition deploymentStore :: S3Storage where
  "deploymentStore =
     exampleStore\<lparr>NextIdNumber := 5,
       apps := [''id_3'' \<mapsto> exampleApp ''id_3'' ''foo'' [(''a@x'', exampleCollaborator ''id_0'' ''Owner'')]],
       deployments := [''id_4'' \<mapsto> exampleDeployment ''id_4'' [examplePackage ''h1'' (Some ''v1'') (Some 50)]],
       accountToAppsMap := [''id_0'' \<mapsto> [''id_3''], ''id_1'' \<mapsto> [], ''id_2'' \<mapsto> []],
       appToAccountMap := [''id_3'' \<mapsto> ''id_0''],
       appToDeploymentsMap := [''id_3'' \<mapsto> [''id_4'']],
       deploymentToAppMap := [''id_4'' \<mapsto> ''id_3''],
       deploymentKeyToDeploymentMap := [''key_id_4'' \<mapsto> ''id_4'']\<rparr>"

text \<open>The store \<open>deploymentStore\<close> before the first release of deployment id_4.\<close>

definition emptyDeploymentStore :: S3Storage where
  "emptyDeploymentStore =
     deploymentStore\<lparr>deployments := [''id_4'' \<mapsto> exampleDeployment ''id_4'' []]\<rparr>"

text \<open>
  Two apps named foo, one owned by a@x and one by b@x; c@x collaborates on both.
\<close>

definition twoFooStore :: S3Storage where
  "twoFooStore =
     exampleStore\<lparr>NextIdNumber := 5,
       apps := [''id_3'' \<mapsto> exampleApp ''id_3'' ''foo''
                   [(''a@x'', exampleCollaborator ''id_0'' ''Owner''),
                    (''c@x'', exampleCollaborator ''id_2'' ''Collaborator'')],
                ''id_4'' \<mapsto> exampleApp ''id_4'' ''foo''
                   [(''b@x'', exampleCollaborator ''id_1'' ''Owner''),
                    (''c@x'', exampleCollaborator ''id_2'' ''Collaborator'')]],
       accountToAppsMap := [''id_0'' \<mapsto> [''id_3''], ''id_1'' \<mapsto> [''id_4''],
                            ''id_2'' \<mapsto> [''id_3'', ''id_4'']],
       appToAccountMap := [''id_3'' \<mapsto> ''id_0'', ''id_4'' \<mapsto> ''id_1''],
       appToDeploymentsMap := [''id_3'' \<mapsto> [], ''id_4'' \<mapsto> []]\<rparr>"

text \<open>
  Two apps named foo in the list of a@x: id_4, owned by b@x, on which a@x collaborates,
  and then id_3, which a@x owns.
\<close>

definition mixedFooStore :: S3Storage where
  "mixedFooStore =
     exampleStore\<lparr>NextIdNumber := 5,
       apps := [''id_3'' \<mapsto> exampleApp ''id_3'' ''foo''
                   [(''a@x'', exampleCollaborator ''id_0'' ''Owner'')],
                ''id_4'' \<mapsto> exampleApp ''id_4'' ''foo''
                   [(''b@x'', exampleCollaborator ''id_1'' ''Owner''),
                    (''a@x'', exampleCollaborator ''id_0'' ''Collaborator'')]],
       accountToAppsMap := [''id_0'' \<mapsto> [''id_4'', ''id_3''], ''id_1'' \<mapsto> [''id_4''],
                            ''id_2'' \<mapsto> []],
       appToAccountMap := [''id_3'' \<mapsto> ''id_0'', ''id_4'' \<mapsto> ''id_1''],
       appToDeploymentsMap := [''id_3'' \<mapsto> [], ''id_4'' \<mapsto> []]\<rparr>"

definition currentCollaborator :: "string \<Rightarrow> string \<Rightarrow> CollaboratorProperties" where
  "currentCollaborator accountId permission =
     \<lparr>collab_accountId = Some accountId, collab_isCurrentAccount = Some True,
      collab_permission = permission\<rparr>"

text \<open>Account a@x owns app id_3 and is its only collaborator.\<close>

definition ownedStore :: S3Storage where
  "ownedStore =
     exampleStore\<lparr>NextIdNumber := 4,
       apps := [''id_3'' \<mapsto> exampleApp ''id_3'' ''foo''
                   [(''a@x'', exampleCollaborator ''id_0'' ''Owner'')]],
       accountToAppsMap := [''id_0'' \<mapsto> [''id_3''], ''id_1'' \<mapsto> [], ''id_2'' \<mapsto> []],
       appToAccountMap := [''id_3'' \<mapsto> ''id_0''],
       appToDeploymentsMap := [''id_3'' \<mapsto> []]\<rparr>"

text \<open>Account a@x owns app id_3; b@x is a collaborator on it.\<close>

definition sharedStore :: S3Storage where
  "sharedStore =
     exampleStore\<lparr>NextIdNumber := 4,
       apps := [''id_3'' \<mapsto> exampleApp ''id_3'' ''foo''
                   [(''a@x'', exampleCollaborator ''id_0'' ''Owner''),
                    (''b@x'', exampleCollaborator ''id_1'' ''Collaborator'')]],
       accountToAppsMap := [''id_0'' \<mapsto> [''id_3''], ''id_1'' \<mapsto> [''id_3''], ''id_2'' \<mapsto> []],
       appToAccountMap := [''id_3'' \<mapsto> ''id_0''],
       appToDeploymentsMap := [''id_3'' \<mapsto> []]\<rparr>"

text \<open>
  Account a@x owns app id_3 with deployment id_4; account b@x owns app id_5, which has
  no deployment.
\<close>

definition chainStore :: S3Storage where
  "chainStore =
     deploymentStore\<lparr>NextIdNumber := 6,
       apps := [''id_3'' \<mapsto> exampleApp ''id_3'' ''foo'' [(''a@x'', exampleCollaborator ''id_0'' ''Owner'')],
                ''id_5'' \<mapsto> exampleApp ''id_5'' ''bar'' [(''b@x'', exampleCollaborator ''id_1'' ''Owner'')]],
       accountToAppsMap := [''id_0'' \<mapsto> [''id_3''], ''id_1'' \<mapsto> [''id_5''], ''id_2'' \<mapsto> []],
       appToAccountMap := [''id_3'' \<mapsto> ''id_0'', ''id_5'' \<mapsto> ''id_1''],
       appToDeploymentsMap := [''id_3'' \<mapsto> [''id_4''], ''id_5'' \<mapsto> []]\<rparr>"

section \<open>Properties\<close>

subsection \<open>Package history\<close>

text \<open>
  C7. \<^verbatim>\<open>updatePackageHistory\<close> with an empty sequence fails with \<^verbatim>\<open>Invalid\<close> and
  returns the store as it was, so the deployment keeps its history and its current
  package. With a sequence that is not empty, on a stored deployment, it succeeds: the
  deployment's history is the new sequence, its current package is the last element of
  that sequence, and nothing else of the store changes.
\<close>

theorem updatePackageHistory_replaces:
  "(history = [] \<longrightarrow>
      updatePackageHistory st accountId appId deploymentId history =
        (Inl (StorageError Invalid (Some ''Cannot clear package history from an update operation'')), st))
   \<and> (history \<noteq> [] \<longrightarrow> deployments st deploymentId = Some deployment \<longrightarrow>
      updatePackageHistory st accountId appId deploymentId history =
        (Inr (), st\<lparr>deployments := (deployments st)
           (deploymentId \<mapsto> deployment\<lparr>dep_package := Some (last history),
                                        dep_packageHistory := history\<rparr>)\<rparr>))"
  by (simp add: updatePackageHistory_def getRejectedPromise_def storageError_def)

theorem updatePackageHistory_replaces_witness:
  "updatePackageHistory deploymentStore ''id_0'' ''id_3'' ''id_4'' [] =
     (Inl (StorageError Invalid (Some ''Cannot clear package history from an update operation'')),
      deploymentStore)
   \<and> deployments deploymentStore ''id_4'' =
       Some (exampleDeployment ''id_4'' [examplePackage ''h1'' (Some ''v1'') (Some 50)])
   \<and> [examplePackage ''h2'' None None, examplePackage ''h3'' None (Some 25)] \<noteq> []
   \<and> updatePackageHistory deploymentStore ''id_0'' ''id_3'' ''id_4''
        [examplePackage ''h2'' None None, examplePackage ''h3'' None (Some 25)] =
       (Inr (), deploymentStore\<lparr>deployments := (deployments deploymentStore)
          (''id_4'' \<mapsto> (exampleDeployment ''id_4'' [examplePackage ''h1'' (Some ''v1'') (Some 50)])
             \<lparr>dep_package := Some (examplePackage ''h3'' None (Some 25)),
              dep_packageHistory := [examplePackage ''h2'' None None, examplePackage ''h3'' None (Some 25)]\<rparr>)\<rparr>)"
proof -
  have d: "deployments deploymentStore ''id_4'' =
       Some (exampleDeployment ''id_4'' [examplePackage ''h1'' (Some ''v1'') (Some 50)])"
    by (simp add: deploymentStore_def)
  show ?thesis
    using updatePackageHistory_replaces [where history = "[]" and st = deploymentStore
        and accountId = "''id_0''" and appId = "''id_3''" and deploymentId = "''id_4''"]
      updatePackageHistory_replaces [where
        history = "[examplePackage ''h2'' None None, examplePackage ''h3'' None (Some 25)]"
        and st = deploymentStore and accountId = "''id_0''" and appId = "''id_3''"
        and deploymentId = "''id_4''"
        and deployment = "exampleDeployment ''id_4'' [examplePackage ''h1'' (Some ''v1'') (Some 50)]"]
      d
    by simp
qed

subsection \<open>Deployments\<close>

text \<open>
  C10. \<^verbatim>\<open>updateDeployment\<close> never changes a current package: whatever the call returns,
  every deployment of the store has the package it had before, also when the update
  record carries a \<^verbatim>\<open>package\<close>. When the call succeeds, the stored deployment is the
  one of before with the update's \<^verbatim>\<open>createdTime\<close>, \<^verbatim>\<open>id\<close>, \<^verbatim>\<open>name\<close> and \<^verbatim>\<open>key\<close>.
\<close>

theorem updateDeployment_keeps_package:
  assumes "updateDeployment st accountId appId deployment = (result, st')"
  shows "map_option dep_package (deployments st' deploymentId) =
           map_option dep_package (deployments st deploymentId)
         \<and> (result = Inr () \<longrightarrow>
              (\<exists>stored. deployments st (dep_id deployment) = Some stored
                 \<and> deployments st' (dep_id deployment) =
                     Some (stored\<lparr>dep_createdTime := dep_createdTime deployment,
                                  dep_id := dep_id deployment,
                                  dep_name := dep_name deployment,
                                  dep_key := dep_key deployment\<rparr>)))"
proof (cases "accounts st accountId = None \<or> apps st appId = None
               \<or> deployments st (dep_id deployment) = None")
  case True
  then have "updateDeployment st accountId appId deployment = (getRejectedPromise NotFound None, st)"
    by (auto simp: updateDeployment_def split: option.splits)
  with assms show ?thesis
    by (auto simp: getRejectedPromise_def)
next
  case False
  then obtain account app stored where
    found: "accounts st accountId = Some account" "apps st appId = Some app"
      "deployments st (dep_id deployment) = Some stored"
    by auto
  then have "updateDeployment st accountId appId deployment =
      (Inr (), st\<lparr>deployments := (deployments st)
         (dep_id deployment \<mapsto> merge_Deployment stored (deployment\<lparr>dep_package := None\<rparr>))\<rparr>)"
    by (simp add: updateDeployment_def clone_def)
  with assms found show ?thesis
    by (auto simp: merge_Deployment_def)
qed

theorem updateDeployment_keeps_package_witness:
  "updateDeployment deploymentStore ''id_0'' ''id_3'' 
        \<lparr>dep_createdTime = 7, dep_id = ''id_4'', dep_name = ''Staging'', dep_key = ''k2'',
         dep_package = Some (examplePackage ''h9'' None None)\<rparr>
     = (Inr (), deploymentStore\<lparr>deployments :=
          [''id_4'' \<mapsto> (exampleDeployment ''id_4'' [examplePackage ''h1'' (Some ''v1'') (Some 50)])
             \<lparr>dep_createdTime := 7, dep_name := ''Staging'', dep_key := ''k2''\<rparr>]\<rparr>)
   \<and> map_option dep_package (deployments (deploymentStore\<lparr>deployments :=
          [''id_4'' \<mapsto> (exampleDeployment ''id_4'' [examplePackage ''h1'' (Some ''v1'') (Some 50)])
             \<lparr>dep_createdTime := 7, dep_name := ''Staging'', dep_key := ''k2''\<rparr>]\<rparr>) ''id_4'')
      = Some (Some (examplePackage ''h1'' (Some ''v1'') (Some 50)))"
proof -
  have run: "updateDeployment deploymentStore ''id_0'' ''id_3'' 
        \<lparr>dep_createdTime = 7, dep_id = ''id_4'', dep_name = ''Staging'', dep_key = ''k2'',
         dep_package = Some (examplePackage ''h9'' None None)\<rparr>
     = (Inr (), deploymentStore\<lparr>deployments :=
          [''id_4'' \<mapsto> (exampleDeployment ''id_4'' [examplePackage ''h1'' (Some ''v1'') (Some 50)])
             \<lparr>dep_createdTime := 7, dep_name := ''Staging'', dep_key := ''k2''\<rparr>]\<rparr>)"
    by (simp add: updateDeployment_def deploymentStore_def exampleStore_def clone_def
        merge_Deployment_def exampleDeployment_def)
  show ?thesis
    using updateDeployment_keeps_package [OF run, of "''id_4''"] run
    by (simp add: deploymentStore_def exampleDeployment_def)
qed

subsection \<open>Committing packages\<close>

text \<open>
  One successful \<^verbatim>\<open>commitPackage\<close>: the rollout of the entry that was last is cleared,
  the new package is appended, and its label is \<open>v\<close> followed by the new length of the
  history.
\<close>

lemma commitPackage_step:
  assumes "accounts st accountId = Some account" "apps st appId = Some app"
    "deployments st deploymentId = Some deployment"
  shows "commitPackage st accountId appId deploymentId (Some p) =
     (Inr (p\<lparr>pkg_label := Some (''v'' @ nat_to_string (Suc (length (dep_packageHistory deployment))))\<rparr>),
      st\<lparr>deployments := (deployments st)(deploymentId \<mapsto>
        deployment\<lparr>dep_package :=
            Some (p\<lparr>pkg_label := Some (''v'' @ nat_to_string (Suc (length (dep_packageHistory deployment))))\<rparr>),
          dep_packageHistory :=
            (if dep_packageHistory deployment = [] then []
             else butlast (dep_packageHistory deployment)
                    @ [(last (dep_packageHistory deployment))\<lparr>pkg_rollout := None\<rparr>])
            @ [p\<lparr>pkg_label := Some (''v'' @ nat_to_string (Suc (length (dep_packageHistory deployment))))\<rparr>]\<rparr>)\<rparr>)"
  using assms by (simp add: commitPackage_def clone_def Let_def)

lemma last_rollout_kept:
  "Suc x = length ps \<Longrightarrow>
     (ps ! x)\<lparr>pkg_label := l\<rparr> =
     (ps ! x)\<lparr>pkg_label := l, pkg_rollout := pkg_rollout (ps ! (length ps - Suc 0))\<rparr>"
proof -
  assume "Suc x = length ps"
  then have "length ps - Suc 0 = x" by simp
  then show ?thesis by simp
qed

lemma commitPackages_history:
  assumes "accounts st accountId = Some account" "apps st appId = Some app"
    "deployments st deploymentId = Some deployment" "packages \<noteq> []"
  shows "\<exists>st' deployment'.
     commitPackages st accountId appId deploymentId packages =
       Some (map (\<lambda>i. (packages ! i)\<lparr>pkg_label :=
                     Some (''v'' @ nat_to_string (length (dep_packageHistory deployment) + Suc i))\<rparr>)
               [0..<length packages], st')
     \<and> accounts st' = accounts st \<and> apps st' = apps st
     \<and> deployments st' deploymentId = Some deployment'
     \<and> dep_packageHistory deployment' =
         (if dep_packageHistory deployment = [] then []
          else butlast (dep_packageHistory deployment)
                 @ [(last (dep_packageHistory deployment))\<lparr>pkg_rollout := None\<rparr>])
         @ map (\<lambda>i. (packages ! i)\<lparr>pkg_label :=
                     Some (''v'' @ nat_to_string (length (dep_packageHistory deployment) + Suc i)),
                   pkg_rollout := (if Suc i = length packages then pkg_rollout (packages ! i) else None)\<rparr>)
             [0..<length packages]"
  using assms
proof (induction packages arbitrary: st deployment)
  case Nil
  then show ?case by simp
next
  case (Cons p ps)
  let ?h = "dep_packageHistory deployment"
  let ?p1 = "p\<lparr>pkg_label := Some (''v'' @ nat_to_string (Suc (length ?h)))\<rparr>"
  let ?h1 = "(if ?h = [] then [] else butlast ?h @ [(last ?h)\<lparr>pkg_rollout := None\<rparr>]) @ [?p1]"
  let ?d1 = "deployment\<lparr>dep_package := Some ?p1, dep_packageHistory := ?h1\<rparr>"
  let ?st1 = "st\<lparr>deployments := (deployments st)(deploymentId \<mapsto> ?d1)\<rparr>"
  have step: "commitPackage st accountId appId deploymentId (Some p) = (Inr ?p1, ?st1)"
    using commitPackage_step [OF Cons.prems(1-3)] by simp
  have len: "length ?h1 = Suc (length ?h)"
    by (cases "?h = []") simp_all
  show ?case
  proof (cases "ps = []")
    case True
    with step show ?thesis by simp
  next
    case False
    have "accounts ?st1 accountId = Some account" "apps ?st1 appId = Some app"
      "deployments ?st1 deploymentId = Some ?d1"
      using Cons.prems by simp_all
    from Cons.IH [OF this False] obtain st' deployment' where
      ih: "commitPackages ?st1 accountId appId deploymentId ps =
         Some (map (\<lambda>i. (ps ! i)\<lparr>pkg_label := Some (''v'' @ nat_to_string (length ?h1 + Suc i))\<rparr>)
                [0..<length ps], st')"
        "accounts st' = accounts ?st1" "apps st' = apps ?st1"
        "deployments st' deploymentId = Some deployment'"
        "dep_packageHistory deployment' =
           (butlast ?h1 @ [(last ?h1)\<lparr>pkg_rollout := None\<rparr>])
           @ map (\<lambda>i. (ps ! i)\<lparr>pkg_label := Some (''v'' @ nat_to_string (length ?h1 + Suc i)),
                     pkg_rollout := (if Suc i = length ps then pkg_rollout (ps ! i) else None)\<rparr>)
               [0..<length ps]"
      by auto
    have ps: "ps \<noteq> []" by fact
    show ?thesis
      using step ih ps
      by (auto simp: len map_upt_Suc simp del: upt_Suc intro: last_rollout_kept)
  qed
qed


text \<open>
  C4. On a deployment whose history is empty, committing the packages \<open>P\<^sub>1, \<dots>, P\<^sub>n\<close> in
  this order succeeds at every call; the call for \<open>P\<^sub>i\<close> returns it with the label
  \<open>v\<close>\<open>i\<close>, and the history at the end is \<open>P\<^sub>1, \<dots>, P\<^sub>n\<close> with these labels, where every
  entry but the last has no rollout and the last has the rollout it was committed
  with. With three packages the labels are v1, v2, v3.
\<close>

theorem commitPackage_labels_and_rollout:
  assumes "accounts st accountId = Some account" and "apps st appId = Some app"
    and "deployments st deploymentId = Some deployment"
    and "dep_packageHistory deployment = []"
  shows "\<exists>st' deployment'.
     commitPackages st accountId appId deploymentId packages =
       Some (map (\<lambda>i. (packages ! i)\<lparr>pkg_label := Some (''v'' @ nat_to_string (Suc i))\<rparr>)
               [0..<length packages], st')
     \<and> deployments st' deploymentId = Some deployment'
     \<and> dep_packageHistory deployment' =
         map (\<lambda>i. (packages ! i)\<lparr>pkg_label := Some (''v'' @ nat_to_string (Suc i)),
                   pkg_rollout := (if Suc i = length packages then pkg_rollout (packages ! i) else None)\<rparr>)
           [0..<length packages]"
proof (cases "packages = []")
  case True
  with assms(3,4) show ?thesis by simp
next
  case False
  from commitPackages_history [OF assms(1-3) False] assms(4) show ?thesis
    by auto
qed

theorem commitPackage_labels_and_rollout_witness:
  "accounts emptyDeploymentStore ''id_0'' = Some (exampleAccount ''id_0'' ''a@x'')
   \<and> apps emptyDeploymentStore ''id_3'' =
       Some (exampleApp ''id_3'' ''foo'' [(''a@x'', exampleCollaborator ''id_0'' ''Owner'')])
   \<and> deployments emptyDeploymentStore ''id_4'' = Some (exampleDeployment ''id_4'' [])
   \<and> dep_packageHistory (exampleDeployment ''id_4'' []) = []
   \<and> (\<exists>st' deployment'.
        commitPackages emptyDeploymentStore ''id_0'' ''id_3'' ''id_4''
          [examplePackage ''h1'' None (Some 50), examplePackage ''h2'' None (Some 25),
           examplePackage ''h3'' None (Some 10)] =
          Some ([examplePackage ''h1'' (Some ''v1'') (Some 50),
                 examplePackage ''h2'' (Some ''v2'') (Some 25),
                 examplePackage ''h3'' (Some ''v3'') (Some 10)], st')
        \<and> deployments st' ''id_4'' = Some deployment'
        \<and> dep_packageHistory deployment' =
            [examplePackage ''h1'' (Some ''v1'') None,
             examplePackage ''h2'' (Some ''v2'') None,
             examplePackage ''h3'' (Some ''v3'') (Some 10)])"
proof -
  have a: "accounts emptyDeploymentStore ''id_0'' = Some (exampleAccount ''id_0'' ''a@x'')"
    by (simp add: emptyDeploymentStore_def deploymentStore_def exampleStore_def)
  have b: "apps emptyDeploymentStore ''id_3'' =
       Some (exampleApp ''id_3'' ''foo'' [(''a@x'', exampleCollaborator ''id_0'' ''Owner'')])"
    by (simp add: emptyDeploymentStore_def deploymentStore_def exampleStore_def)
  have c: "deployments emptyDeploymentStore ''id_4'' = Some (exampleDeployment ''id_4'' [])"
    by (simp add: emptyDeploymentStore_def)
  have d: "dep_packageHistory (exampleDeployment ''id_4'' []) = []"
    by (simp add: exampleDeployment_def)
  have e: "[0..<length [examplePackage ''h1'' None (Some 50), examplePackage ''h2'' None (Some 25),
           examplePackage ''h3'' None (Some 10)]] = [0, Suc 0, Suc (Suc 0)]"
    by (simp add: upt_rec)
  show ?thesis
    using commitPackage_labels_and_rollout [OF a b c d,
        of "[examplePackage ''h1'' None (Some 50), examplePackage ''h2'' None (Some 25),
             examplePackage ''h3'' None (Some 10)]"]
      a b c d
    unfolding e
    by (simp add: examplePackage_def nat_to_string.simps)
qed

subsection \<open>Resolving an app by name\<close>

lemma split_sep_nonempty: "split_sep sep s \<noteq> []"
  by (induction s) (auto split: list.splits)

lemma split_sep_plain: "sep \<notin> set s \<Longrightarrow> split_sep sep s = [s]"
  by (induction s) auto

lemma split_sep_qualified:
  "sep \<notin> set a \<Longrightarrow> split_sep sep (a @ sep # b) = a # split_sep sep b"
  by (induction a) (auto split: list.splits simp: split_sep_nonempty)

lemma findAppByOwner_find:
  "\<forall>app \<in> set candidates. app_collaborators app \<noteq> None \<Longrightarrow>
   findAppByOwner candidates ownerEmail =
     Inr (find (\<lambda>app. isOwner (app_collaborators app) ownerEmail) candidates)"
  by (induction candidates) (auto simp: isOwner_def split: option.splits)

lemma those_map_Some: "those (map Some xs) = Some xs"
  by (induction xs) auto

lemma findByName_unqualified:
  assumes "\<forall>app \<in> set appList. app_collaborators app \<noteq> None" "CHR '':'' \<notin> set name"
  shows "findByName (map Some appList) name =
     (let candidates = filter (\<lambda>app. app_name app = name) appList in
      if length candidates = 1 then Inr (Some (candidates ! 0))
      else Inr (find isOwnedByCurrentUser candidates))"
proof (cases appList)
  case Nil
  then show ?thesis by (simp add: findByName_def)
next
  case (Cons first rest)
  with assms(1) have "findByName (map Some appList) name = findAppByName (map Some appList) name"
    by (auto simp: findByName_def)
  then show ?thesis
    using assms(2)
    by (simp add: findAppByName_def split_sep_plain those_map_Some Let_def)
qed

lemma findByName_qualified:
  assumes "\<forall>app \<in> set appList. app_collaborators app \<noteq> None"
    "CHR '':'' \<notin> set name" "CHR '':'' \<notin> set ownerEmail" "ownerEmail \<noteq> []"
  shows "findByName (map Some appList) (ownerEmail @ '':'' @ name) =
     Inr (find (\<lambda>app. isOwner (app_collaborators app) ownerEmail)
            (filter (\<lambda>app. app_name app = name) appList))"
proof (cases appList)
  case Nil
  then show ?thesis by (simp add: findByName_def)
next
  case (Cons first rest)
  with assms(1) have "findByName (map Some appList) (ownerEmail @ '':'' @ name)
      = findAppByName (map Some appList) (ownerEmail @ '':'' @ name)"
    by (auto simp: findByName_def)
  moreover have "\<forall>app \<in> set (filter (\<lambda>app. app_name app = name) appList). app_collaborators app \<noteq> None"
    using assms(1) by auto
  ultimately show ?thesis
    using assms(2-4)
    by (simp add: findAppByName_def split_sep_qualified split_sep_plain those_map_Some Let_def
        findAppByOwner_find)
qed


text \<open>
  On an app as \<^verbatim>\<open>getApps\<close> returns it, from a stored app that carries no flag of its
  own, \<^verbatim>\<open>isOwnedByCurrentUser\<close> says that an entry of the calling account has the
  permission Owner.
\<close>

lemma isOwnedByCurrentUser_getApps:
  assumes "app_collaborators app = Some cs"
    and "\<forall>(email, c) \<in> set cs. collab_isCurrentAccount c \<noteq> Some True"
  shows "isOwnedByCurrentUser (addIsCurrentAccountProperty app accountId) =
     list_ex (\<lambda>(email, c). collab_accountId c = Some accountId
                \<and> collab_permission c = Permissions_Owner) cs"
proof -
  have "list_ex (\<lambda>(email, c). collab_isCurrentAccount c = Some True
                  \<and> collab_permission c = Permissions_Owner)
          (map (\<lambda>(email, c).
                (email, if collab_accountId c = Some accountId
                        then c\<lparr>collab_isCurrentAccount := Some True\<rparr> else c)) xs)
        = list_ex (\<lambda>(email, c). collab_accountId c = Some accountId
                \<and> collab_permission c = Permissions_Owner) xs"
    if "\<forall>(email, c) \<in> set xs. collab_isCurrentAccount c \<noteq> Some True" for xs :: CollaboratorMap
    using that by (induction xs) (auto split: if_splits)
  with assms show ?thesis
    by (simp add: isOwnedByCurrentUser_def addIsCurrentAccountProperty_def)
qed

text \<open>
  The code's test \<^verbatim>\<open>isOwnedByCurrentUser\<close> is the test on the entries.
\<close>

lemma isOwnedByCurrentUser_flaggedOwner: "isOwnedByCurrentUser app = flaggedOwner app"
proof (cases "app_collaborators app")
  case None
  then show ?thesis by (simp add: isOwnedByCurrentUser_def flaggedOwner_def)
next
  case (Some cs)
  then show ?thesis
    by (simp add: isOwnedByCurrentUser_def flaggedOwner_def list_ex_iff Permissions_Owner_def)
qed

text \<open>
  C1. Let the store return the list \<open>appList\<close> for the account, every app in it with
  a collaborator map, and let \<open>name\<close> have no colon. Among the apps named \<open>name\<close>:
  when there is exactly one, \<^verbatim>\<open>resolveApp\<close> returns it; otherwise it returns the first
  in which an entry is flagged \<^verbatim>\<open>isCurrentAccount\<close> with the permission Owner; otherwise
  it fails with \<^verbatim>\<open>NotFound\<close>. So with exactly two apps of that name, neither with such
  an entry, the bare name fails with \<^verbatim>\<open>NotFound\<close>, while the query \<open>ownerEmail:name\<close>
  returns the first app of that name in which \<open>ownerEmail\<close> is the Owner (and fails with
  \<^verbatim>\<open>NotFound\<close> when there is none).
\<close>

theorem resolveApp_unqualified:
  assumes "getApps st accountId = Inr (map Some appList)"
    and "\<forall>app \<in> set appList. app_collaborators app \<noteq> None"
    and "CHR '':'' \<notin> set name"
  shows "resolveApp st accountId name =
     (let candidates = filter (\<lambda>app. app_name app = name) appList in
      if length candidates = 1 then Inr (candidates ! 0)
      else case find flaggedOwner candidates of
             Some app \<Rightarrow> Inr app
           | None \<Rightarrow> Inl (StorageError NotFound (Some (appDoesNotExist name))))
   \<and> (filter (\<lambda>app. app_name app = name) appList = [app1, app2]
        \<and> \<not> flaggedOwner app1 \<and> \<not> flaggedOwner app2 \<longrightarrow>
       resolveApp st accountId name =
         Inl (StorageError NotFound (Some (appDoesNotExist name))))
   \<and> (CHR '':'' \<notin> set ownerEmail \<and> ownerEmail \<noteq> [] \<longrightarrow>
       resolveApp st accountId (ownerEmail @ '':'' @ name) =
         (case find (\<lambda>app. permissionOf (the (app_collaborators app)) ownerEmail = Some ''Owner'')
                 (filter (\<lambda>app. app_name app = name) appList) of
            Some app \<Rightarrow> Inr app
          | None \<Rightarrow> Inl (StorageError NotFound
                           (Some (appDoesNotExist (ownerEmail @ '':'' @ name))))))"
proof -
  have tier: "find isOwnedByCurrentUser xs = find flaggedOwner xs" for xs :: "App list"
    by (induction xs) (simp_all add: isOwnedByCurrentUser_flaggedOwner)
  have bare: "resolveApp st accountId name =
     (let candidates = filter (\<lambda>app. app_name app = name) appList in
      if length candidates = 1 then Inr (candidates ! 0)
      else case find flaggedOwner candidates of
             Some app \<Rightarrow> Inr app
           | None \<Rightarrow> Inl (StorageError NotFound (Some (appDoesNotExist name))))"
    using assms(1) findByName_unqualified [OF assms(2,3)]
    by (simp add: resolveApp_def Let_def storageError_def errorMessageOverride_def tier
        split: option.splits)
  have two: "resolveApp st accountId name =
         Inl (StorageError NotFound (Some (appDoesNotExist name)))"
    if "filter (\<lambda>app. app_name app = name) appList = [app1, app2]"
      "\<not> flaggedOwner app1" "\<not> flaggedOwner app2"
    using that bare by simp
  have byOwner: "find (\<lambda>app. isOwner (app_collaborators app) ownerEmail) xs =
      find (\<lambda>app. permissionOf (the (app_collaborators app)) ownerEmail = Some ''Owner'') xs"
    if "\<forall>app \<in> set xs. app_collaborators app \<noteq> None" for xs :: "App list"
    using that
    by (induction xs)
       (auto simp: isOwner_def permissionOf_def Permissions_Owner_def split: option.splits)
  have "\<forall>app \<in> set (filter (\<lambda>app. app_name app = name) appList). app_collaborators app \<noteq> None"
    using assms(2) by simp
  note sameOwner = byOwner [OF this]
  have owned: "resolveApp st accountId (ownerEmail @ '':'' @ name) =
         (case find (\<lambda>app. permissionOf (the (app_collaborators app)) ownerEmail = Some ''Owner'')
                 (filter (\<lambda>app. app_name app = name) appList) of
            Some app \<Rightarrow> Inr app
          | None \<Rightarrow> Inl (StorageError NotFound
                           (Some (appDoesNotExist (ownerEmail @ '':'' @ name)))))"
    if "CHR '':'' \<notin> set ownerEmail" "ownerEmail \<noteq> []"
    using assms(1) findByName_qualified [OF assms(2,3) that] sameOwner
    by (simp add: resolveApp_def storageError_def errorMessageOverride_def
        split: option.splits)
  from bare two owned show ?thesis by blast
qed

theorem resolveApp_unqualified_witness:
  "getApps twoFooStore ''id_2'' =
     Inr (map Some
       [exampleApp ''id_3'' ''foo''
          [(''a@x'', exampleCollaborator ''id_0'' ''Owner''),
           (''c@x'', currentCollaborator ''id_2'' ''Collaborator'')],
        exampleApp ''id_4'' ''foo''
          [(''b@x'', exampleCollaborator ''id_1'' ''Owner''),
           (''c@x'', currentCollaborator ''id_2'' ''Collaborator'')]])
   \<and> CHR '':'' \<notin> set ''foo'' \<and> CHR '':'' \<notin> set ''a@x'' \<and> ''a@x'' \<noteq> []
   \<and> resolveApp twoFooStore ''id_2'' ''foo'' =
       Inl (StorageError NotFound (Some (appDoesNotExist ''foo'')))
   \<and> resolveApp twoFooStore ''id_2'' ''a@x:foo'' =
       Inr (exampleApp ''id_3'' ''foo''
          [(''a@x'', exampleCollaborator ''id_0'' ''Owner''),
           (''c@x'', currentCollaborator ''id_2'' ''Collaborator'')])
   \<and> resolveApp twoFooStore ''id_2'' ''b@x:foo'' =
       Inr (exampleApp ''id_4'' ''foo''
          [(''b@x'', exampleCollaborator ''id_1'' ''Owner''),
           (''c@x'', currentCollaborator ''id_2'' ''Collaborator'')])
   \<and> resolveApp twoFooStore ''id_0'' ''foo'' =
       Inr (exampleApp ''id_3'' ''foo''
          [(''a@x'', currentCollaborator ''id_0'' ''Owner''),
           (''c@x'', exampleCollaborator ''id_2'' ''Collaborator'')])
   \<and> getApps mixedFooStore ''id_0'' =
       Inr (map Some
         [exampleApp ''id_4'' ''foo''
            [(''b@x'', exampleCollaborator ''id_1'' ''Owner''),
             (''a@x'', currentCollaborator ''id_0'' ''Collaborator'')],
          exampleApp ''id_3'' ''foo''
            [(''a@x'', currentCollaborator ''id_0'' ''Owner'')]])
   \<and> resolveApp mixedFooStore ''id_0'' ''foo'' =
       Inr (exampleApp ''id_3'' ''foo'' [(''a@x'', currentCollaborator ''id_0'' ''Owner'')])"
proof -
  let ?app3 = "exampleApp ''id_3'' ''foo''
          [(''a@x'', exampleCollaborator ''id_0'' ''Owner''),
           (''c@x'', currentCollaborator ''id_2'' ''Collaborator'')]"
  let ?app4 = "exampleApp ''id_4'' ''foo''
          [(''b@x'', exampleCollaborator ''id_1'' ''Owner''),
           (''c@x'', currentCollaborator ''id_2'' ''Collaborator'')]"
  let ?own3 = "exampleApp ''id_3'' ''foo''
          [(''a@x'', currentCollaborator ''id_0'' ''Owner''),
           (''c@x'', exampleCollaborator ''id_2'' ''Collaborator'')]"
  let ?other4 = "exampleApp ''id_4'' ''foo''
            [(''b@x'', exampleCollaborator ''id_1'' ''Owner''),
             (''a@x'', currentCollaborator ''id_0'' ''Collaborator'')]"
  let ?mine3 = "exampleApp ''id_3'' ''foo'' [(''a@x'', currentCollaborator ''id_0'' ''Owner'')]"
  have apps2: "getApps twoFooStore ''id_2'' = Inr (map Some [?app3, ?app4])"
    by (simp add: getApps_def twoFooStore_def exampleStore_def clone_def
        addIsCurrentAccountProperty_def exampleApp_def exampleCollaborator_def
        currentCollaborator_def)
  have apps0: "getApps twoFooStore ''id_0'' = Inr (map Some [?own3])"
    by (simp add: getApps_def twoFooStore_def exampleStore_def clone_def
        addIsCurrentAccountProperty_def exampleApp_def exampleCollaborator_def
        currentCollaborator_def)
  have mixed: "getApps mixedFooStore ''id_0'' = Inr (map Some [?other4, ?mine3])"
    by (simp add: getApps_def mixedFooStore_def exampleStore_def clone_def
        addIsCurrentAccountProperty_def exampleApp_def exampleCollaborator_def
        currentCollaborator_def)
  have has2: "\<forall>app \<in> set [?app3, ?app4]. app_collaborators app \<noteq> None"
    by (simp add: exampleApp_def)
  have has0: "\<forall>app \<in> set [?own3]. app_collaborators app \<noteq> None"
    by (simp add: exampleApp_def)
  have hasMixed: "\<forall>app \<in> set [?other4, ?mine3]. app_collaborators app \<noteq> None"
    by (simp add: exampleApp_def)
  have bare: "CHR '':'' \<notin> set ''foo''" by simp
  have own: "CHR '':'' \<notin> set ''a@x'' \<and> ''a@x'' \<noteq> []" by simp
  have own': "CHR '':'' \<notin> set ''b@x'' \<and> ''b@x'' \<noteq> []" by simp
  have notowned: "\<not> flaggedOwner ?app3 \<and> \<not> flaggedOwner ?app4"
    by (simp add: flaggedOwner_def exampleApp_def exampleCollaborator_def
        currentCollaborator_def)
  have tier2: "\<not> flaggedOwner ?other4 \<and> flaggedOwner ?mine3"
    by (simp add: flaggedOwner_def exampleApp_def exampleCollaborator_def
        currentCollaborator_def)
  have cands: "filter (\<lambda>app. app_name app = ''foo'') [?app3, ?app4] = [?app3, ?app4]"
    by (simp add: exampleApp_def)
  have candsMixed: "filter (\<lambda>app. app_name app = ''foo'') [?other4, ?mine3] = [?other4, ?mine3]"
    by (simp add: exampleApp_def)
  have owners: "permissionOf (the (app_collaborators ?app3)) ''a@x'' = Some ''Owner''"
    "permissionOf (the (app_collaborators ?app3)) ''b@x'' \<noteq> Some ''Owner''"
    "permissionOf (the (app_collaborators ?app4)) ''b@x'' = Some ''Owner''"
    by (simp_all add: permissionOf_def exampleApp_def exampleCollaborator_def)
  note two = resolveApp_unqualified [OF apps2 has2 bare, of ?app3 ?app4 "''a@x''"]
  note two' = resolveApp_unqualified [OF apps2 has2 bare, of ?app3 ?app4 "''b@x''"]
  note one = resolveApp_unqualified [OF apps0 has0 bare, of ?app3 ?app4 "''a@x''"]
  note tier = resolveApp_unqualified [OF mixed hasMixed bare, of ?app3 ?app4 "''a@x''"]
  have r1: "resolveApp twoFooStore ''id_2'' ''foo'' =
       Inl (StorageError NotFound (Some (appDoesNotExist ''foo'')))"
    using two cands notowned by simp
  have r2: "resolveApp twoFooStore ''id_2'' ''a@x:foo'' = Inr ?app3"
    using two own cands owners by simp
  have r2': "resolveApp twoFooStore ''id_2'' ''b@x:foo'' = Inr ?app4"
    using two' own' cands owners by simp
  have r3: "resolveApp twoFooStore ''id_0'' ''foo'' = Inr ?own3"
    using one by (simp add: exampleApp_def)
  have r4: "resolveApp mixedFooStore ''id_0'' ''foo'' = Inr ?mine3"
    using tier candsMixed tier2 by simp
  from apps2 bare own r1 r2 r2' r3 mixed r4 show ?thesis by simp
qed

subsection \<open>Collaborator maps\<close>

lemma Owner_neq_Collaborator: "Permissions_Owner \<noteq> Permissions_Collaborator"
  by (simp add: Permissions_Owner_def Permissions_Collaborator_def)

lemma isOwner_permissionOf: "isOwner (Some cs) email = (permissionOf cs email = Some Permissions_Owner)"
  by (auto simp: isOwner_def permissionOf_def split: option.splits)

lemma isCollaborator_permissionOf:
  "isCollaborator (Some cs) email = (permissionOf cs email = Some Permissions_Collaborator)"
  by (auto simp: isCollaborator_def permissionOf_def split: option.splits)

lemma permissionOf_map:
  assumes "\<And>c. collab_permission (f c) = collab_permission c"
  shows "permissionOf (map (\<lambda>(email, c). (email, f c)) cs) = permissionOf cs"
proof
  fix email
  show "permissionOf (map (\<lambda>(email, c). (email, f c)) cs) email = permissionOf cs email"
    by (cases "map_of cs email") (simp_all add: permissionOf_def map_of_map assms)
qed

text \<open>Flagging and unflagging the caller's entries changes no key and no permission.\<close>

lemma addIsCurrentAccountProperty_collaborators:
  assumes "app_collaborators app = Some cs"
  shows "\<exists>cs1. app_collaborators (addIsCurrentAccountProperty app accountId) = Some cs1
           \<and> map fst cs1 = map fst cs \<and> permissionOf cs1 = permissionOf cs"
proof -
  let ?f = "\<lambda>c. if collab_accountId c = Some accountId
                 then c\<lparr>collab_isCurrentAccount := Some True\<rparr> else c"
  let ?cs1 = "map (\<lambda>(email, c). (email, ?f c)) cs"
  have "app_collaborators (addIsCurrentAccountProperty app accountId) = Some ?cs1"
    using assms by (simp add: addIsCurrentAccountProperty_def)
  moreover have "map fst ?cs1 = map fst cs"
    by (induction cs) auto
  moreover have "permissionOf ?cs1 = permissionOf cs"
    by (rule permissionOf_map) simp
  ultimately show ?thesis by blast
qed

lemma removeIsCurrentAccountProperty_collaborators:
  assumes "app_collaborators app = Some cs"
  shows "\<exists>cs1. app_collaborators (removeIsCurrentAccountProperty app) = Some cs1
           \<and> map fst cs1 = map fst cs \<and> permissionOf cs1 = permissionOf cs"
proof -
  let ?f = "\<lambda>c. if collab_isCurrentAccount c = Some True
                 then c\<lparr>collab_isCurrentAccount := None\<rparr> else c"
  let ?cs1 = "map (\<lambda>(email, c). (email, ?f c)) cs"
  have "app_collaborators (removeIsCurrentAccountProperty app) = Some ?cs1"
    using assms by (simp add: removeIsCurrentAccountProperty_def)
  moreover have "map fst ?cs1 = map fst cs"
    by (induction cs) auto
  moreover have "permissionOf ?cs1 = permissionOf cs"
    by (rule permissionOf_map) simp
  ultimately show ?thesis by blast
qed

lemma removeIsCurrentAccountProperty_fields:
  "app_id (removeIsCurrentAccountProperty app) = app_id app"
  "app_name (removeIsCurrentAccountProperty app) = app_name app"
  "app_createdTime (removeIsCurrentAccountProperty app) = app_createdTime app"
  by (simp_all add: removeIsCurrentAccountProperty_def)

lemma addIsCurrentAccountProperty_fields:
  "app_id (addIsCurrentAccountProperty app accountId) = app_id app"
  "app_name (addIsCurrentAccountProperty app accountId) = app_name app"
  "app_createdTime (addIsCurrentAccountProperty app accountId) = app_createdTime app"
  by (simp_all add: addIsCurrentAccountProperty_def)

lemma permissionOf_update:
  "permissionOf (AList.update email c cs) = (permissionOf cs)(email \<mapsto> collab_permission c)"
  by (rule ext) (simp add: permissionOf_def update_conv')

lemma permissionOf_delete:
  "permissionOf (AList.delete email cs) = (permissionOf cs)(email := None)"
  by (rule ext) (simp add: permissionOf_def delete_conv')

text \<open>What a successful \<^verbatim>\<open>updateApp\<close> stores.\<close>

lemma updateApp_result:
  assumes "updateApp st accountId app = (result, st')"
    and "app_collaborators app = Some cs"
  shows "(result = Inr () \<and>
          (\<exists>stored cs1. apps st (app_id app) = Some stored
             \<and> st' = st\<lparr>apps := (apps st)(app_id app \<mapsto>
                        app\<lparr>app_collaborators := Some cs1\<rparr>)\<rparr>
             \<and> map fst cs1 = map fst cs \<and> permissionOf cs1 = permissionOf cs))
         \<or> (result = Inl (StorageError NotFound None) \<and> st' = st)"
proof (cases "accounts st accountId = None \<or> apps st (app_id app) = None")
  case True
  then have "updateApp st accountId app = (getRejectedPromise NotFound None, st)"
    by (auto simp: updateApp_def split: option.splits)
  with assms(1) show ?thesis
    by (simp add: getRejectedPromise_def storageError_def)
next
  case False
  then obtain account stored where
    found: "accounts st accountId = Some account" "apps st (app_id app) = Some stored"
    by auto
  from removeIsCurrentAccountProperty_collaborators [OF assms(2)] obtain cs1 where
    cs1: "app_collaborators (removeIsCurrentAccountProperty app) = Some cs1"
      "map fst cs1 = map fst cs" "permissionOf cs1 = permissionOf cs"
    by blast
  have "merge_App stored (removeIsCurrentAccountProperty app) = app\<lparr>app_collaborators := Some cs1\<rparr>"
    using cs1(1) by (simp add: merge_App_def removeIsCurrentAccountProperty_fields)
  then have "updateApp st accountId app =
      (Inr (), st\<lparr>apps := (apps st)(app_id app \<mapsto> app\<lparr>app_collaborators := Some cs1\<rparr>)\<rparr>)"
    using found by (simp add: updateApp_def clone_def)
  with assms(1) found cs1 show ?thesis by auto
qed

subsection \<open>What a successful transfer does\<close>

lemma addIsCurrentAccountProperty_overwrite:
  "(addIsCurrentAccountProperty app accountId)\<lparr>app_collaborators := x\<rparr> = app\<lparr>app_collaborators := x\<rparr>"
  by (simp add: addIsCurrentAccountProperty_def)

lemma getApp_found:
  "accounts st accountId = Some account \<Longrightarrow> apps st appId = Some app \<Longrightarrow>
   getApp st accountId appId = Inr (addIsCurrentAccountProperty app accountId)"
  by (simp add: getApp_def clone_def)

lemma getApp_missing:
  "accounts st accountId = None \<or> apps st appId = None \<Longrightarrow>
   getApp st accountId appId = Inl (StorageError NotFound None)"
  by (auto simp: getApp_def getRejectedPromise_def storageError_def split: option.splits)

lemma addAppPointer_frame:
  assumes "addAppPointer st accountId appId = Inr st1"
  shows "accounts st1 = accounts st" "apps st1 = apps st"
    "emailToAccountMap st1 = emailToAccountMap st" "deployments st1 = deployments st"
  using assms by (auto simp: addAppPointer_def split: option.splits)

lemma transferApp_inversion:
  assumes run: "transferApp st accountId appId email = (Inr (), st')"
  shows "\<exists>account app targetId target cs1 requester.
      accounts st accountId = Some account \<and> apps st appId = Some app
    \<and> emailToAccountMap st (toLowerCase email) = Some targetId
    \<and> accounts st targetId = Some target
    \<and> app_collaborators (addIsCurrentAccountProperty app accountId) = Some cs1
    \<and> \<not> isOwner (Some cs1) (acc_email target)
    \<and> map_of cs1 (acc_email account) = Some requester
    \<and> (if isCollaborator
             (Some (AList.update (acc_email account)
                (requester\<lparr>collab_permission := Permissions_Collaborator\<rparr>) cs1))
             (acc_email target)
        then \<exists>c. map_of (AList.update (acc_email account)
                (requester\<lparr>collab_permission := Permissions_Collaborator\<rparr>) cs1)
                 (acc_email target) = Some c
             \<and> updateApp st accountId
               ((addIsCurrentAccountProperty app accountId)\<lparr>app_collaborators := Some
                  (AList.update (acc_email target) (c\<lparr>collab_permission := Permissions_Owner\<rparr>)
                    (AList.update (acc_email account)
                      (requester\<lparr>collab_permission := Permissions_Collaborator\<rparr>) cs1))\<rparr>)
               = (Inr (), st')
        else \<exists>st1. addAppPointer st targetId (app_id app) = Inr st1
             \<and> updateApp st1 accountId
               ((addIsCurrentAccountProperty app accountId)\<lparr>app_collaborators := Some
                  (AList.update (acc_email target)
                    \<lparr>collab_accountId = Some targetId, collab_isCurrentAccount = None,
                     collab_permission = Permissions_Owner\<rparr>
                    (AList.update (acc_email account)
                      (requester\<lparr>collab_permission := Permissions_Collaborator\<rparr>) cs1))\<rparr>)
               = (Inr (), st'))"
  using run
  by (auto simp: transferApp_def getApp_def clone_def Let_def getRejectedPromise_def
      addIsCurrentAccountProperty_fields isCollaborator_def
      split: if_splits option.splits sum.splits)


lemma transferApp_success:
  assumes run: "transferApp st accountId appId email = (Inr (), st')"
  shows "\<exists>account app targetId target cs cs'.
      accounts st accountId = Some account \<and> apps st appId = Some app
    \<and> emailToAccountMap st (toLowerCase email) = Some targetId
    \<and> accounts st targetId = Some target
    \<and> app_collaborators app = Some cs
    \<and> permissionOf cs (acc_email account) \<noteq> None
    \<and> permissionOf cs (acc_email target) \<noteq> Some Permissions_Owner
    \<and> apps st' = (apps st)(app_id app \<mapsto> app\<lparr>app_collaborators := Some cs'\<rparr>)
    \<and> permissionOf cs' =
        (permissionOf cs)(acc_email account \<mapsto> Permissions_Collaborator,
                          acc_email target \<mapsto> Permissions_Owner)
    \<and> set (map fst cs') = insert (acc_email target) (set (map fst cs))
    \<and> (distinct (map fst cs) \<longrightarrow> distinct (map fst cs'))
    \<and> accounts st' = accounts st \<and> emailToAccountMap st' = emailToAccountMap st"
proof -
  from transferApp_inversion [OF run] obtain account app targetId target cs1 requester where
    account: "accounts st accountId = Some account" and app: "apps st appId = Some app"
    and targetId: "emailToAccountMap st (toLowerCase email) = Some targetId"
    and target: "accounts st targetId = Some target"
    and cs1: "app_collaborators (addIsCurrentAccountProperty app accountId) = Some cs1"
    and notOwner: "\<not> isOwner (Some cs1) (acc_email target)"
    and requester: "map_of cs1 (acc_email account) = Some requester"
    and rest: "if isCollaborator
             (Some (AList.update (acc_email account)
                (requester\<lparr>collab_permission := Permissions_Collaborator\<rparr>) cs1))
             (acc_email target)
        then \<exists>c. map_of (AList.update (acc_email account)
                (requester\<lparr>collab_permission := Permissions_Collaborator\<rparr>) cs1)
                 (acc_email target) = Some c
             \<and> updateApp st accountId
               ((addIsCurrentAccountProperty app accountId)\<lparr>app_collaborators := Some
                  (AList.update (acc_email target) (c\<lparr>collab_permission := Permissions_Owner\<rparr>)
                    (AList.update (acc_email account)
                      (requester\<lparr>collab_permission := Permissions_Collaborator\<rparr>) cs1))\<rparr>)
               = (Inr (), st')
        else \<exists>st1. addAppPointer st targetId (app_id app) = Inr st1
             \<and> updateApp st1 accountId
               ((addIsCurrentAccountProperty app accountId)\<lparr>app_collaborators := Some
                  (AList.update (acc_email target)
                    \<lparr>collab_accountId = Some targetId, collab_isCurrentAccount = None,
                     collab_permission = Permissions_Owner\<rparr>
                    (AList.update (acc_email account)
                      (requester\<lparr>collab_permission := Permissions_Collaborator\<rparr>) cs1))\<rparr>)
               = (Inr (), st')"
    by blast
  let ?requester = "acc_email account"
  let ?email = "acc_email target"
  obtain cs where cs: "app_collaborators app = Some cs"
    using cs1 by (cases "app_collaborators app") (auto simp: addIsCurrentAccountProperty_def)
  from addIsCurrentAccountProperty_collaborators [OF cs, of accountId] cs1
  have keys1: "map fst cs1 = map fst cs" and perm1: "permissionOf cs1 = permissionOf cs"
    by auto
  let ?cs2 = "AList.update ?requester (requester\<lparr>collab_permission := Permissions_Collaborator\<rparr>) cs1"
  have "?requester \<in> set (map fst cs1)"
    using requester by (auto dest: map_of_SomeD intro: rev_image_eqI)
  then have keys2: "set (map fst ?cs2) = set (map fst cs)"
    using keys1 by (auto simp: update_keys)
  have dist2: "distinct (map fst cs) \<longrightarrow> distinct (map fst ?cs2)"
    using keys1 by (auto simp: distinct_update)
  have perm2: "permissionOf ?cs2 = (permissionOf cs)(?requester \<mapsto> Permissions_Collaborator)"
    by (simp add: permissionOf_update perm1)
  have reqSome: "permissionOf cs ?requester \<noteq> None"
    using requester perm1 [symmetric] by (simp add: permissionOf_def)
  have notOwner': "permissionOf cs ?email \<noteq> Some Permissions_Owner"
    using notOwner perm1 by (simp add: isOwner_permissionOf)
  have final: "\<exists>cs'. apps st' = (apps st)(app_id app \<mapsto> app\<lparr>app_collaborators := Some cs'\<rparr>)
      \<and> accounts st' = accounts st \<and> emailToAccountMap st' = emailToAccountMap st
      \<and> map fst cs' = map fst cs3 \<and> permissionOf cs' = permissionOf cs3"
    if "updateApp st1 accountId
          ((addIsCurrentAccountProperty app accountId)\<lparr>app_collaborators := Some cs3\<rparr>) = (Inr (), st')"
      and "accounts st1 = accounts st" "apps st1 = apps st"
      "emailToAccountMap st1 = emailToAccountMap st"
    for st1 cs3
    using updateApp_result [OF that(1)] that(2-4)
    by (auto simp: addIsCurrentAccountProperty_overwrite addIsCurrentAccountProperty_fields)
  show ?thesis
  proof (cases "isCollaborator (Some ?cs2) ?email")
    case True
    with rest obtain c where c: "map_of ?cs2 ?email = Some c"
      and upd: "updateApp st accountId
               ((addIsCurrentAccountProperty app accountId)\<lparr>app_collaborators := Some
                  (AList.update ?email (c\<lparr>collab_permission := Permissions_Owner\<rparr>) ?cs2)\<rparr>)
               = (Inr (), st')"
      by auto
    let ?cs3 = "AList.update ?email (c\<lparr>collab_permission := Permissions_Owner\<rparr>) ?cs2"
    have keys3: "set (map fst ?cs3) = insert ?email (set (map fst cs))"
      using keys2 by (auto simp: update_keys)
    have dist3: "distinct (map fst cs) \<longrightarrow> distinct (map fst ?cs3)"
      using dist2 by (auto simp: distinct_update)
    have perm3: "permissionOf ?cs3 =
        (permissionOf cs)(?requester \<mapsto> Permissions_Collaborator, ?email \<mapsto> Permissions_Owner)"
      by (simp add: permissionOf_update perm1)
    from final [OF upd] obtain cs' where
      "apps st' = (apps st)(app_id app \<mapsto> app\<lparr>app_collaborators := Some cs'\<rparr>)"
      "accounts st' = accounts st" "emailToAccountMap st' = emailToAccountMap st"
      "map fst cs' = map fst ?cs3" "permissionOf cs' = permissionOf ?cs3"
      by auto
    with account app targetId target cs reqSome notOwner' keys3 dist3 perm3
    show ?thesis by (intro exI [of _ account] exI [of _ app] exI [of _ targetId]
          exI [of _ target] exI [of _ cs] exI [of _ cs']) simp
  next
    case False
    with rest obtain st1 where st1: "addAppPointer st targetId (app_id app) = Inr st1"
      and upd: "updateApp st1 accountId
               ((addIsCurrentAccountProperty app accountId)\<lparr>app_collaborators := Some
                  (AList.update ?email
                    \<lparr>collab_accountId = Some targetId, collab_isCurrentAccount = None,
                     collab_permission = Permissions_Owner\<rparr> ?cs2)\<rparr>)
               = (Inr (), st')"
      by auto
    let ?cs3 = "AList.update ?email
        \<lparr>collab_accountId = Some targetId, collab_isCurrentAccount = None,
         collab_permission = Permissions_Owner\<rparr> ?cs2"
    have keys3: "set (map fst ?cs3) = insert ?email (set (map fst cs))"
      using keys2 by (auto simp: update_keys)
    have dist3: "distinct (map fst cs) \<longrightarrow> distinct (map fst ?cs3)"
      using dist2 by (auto simp: distinct_update)
    have perm3: "permissionOf ?cs3 =
        (permissionOf cs)(?requester \<mapsto> Permissions_Collaborator, ?email \<mapsto> Permissions_Owner)"
      by (simp add: permissionOf_update perm1)
    from final [OF upd addAppPointer_frame(1-3) [OF st1]] obtain cs' where
      "apps st' = (apps st)(app_id app \<mapsto> app\<lparr>app_collaborators := Some cs'\<rparr>)"
      "accounts st' = accounts st" "emailToAccountMap st' = emailToAccountMap st"
      "map fst cs' = map fst ?cs3" "permissionOf cs' = permissionOf ?cs3"
      by auto
    with account app targetId target cs reqSome notOwner' keys3 dist3 perm3
    show ?thesis by (intro exI [of _ account] exI [of _ app] exI [of _ targetId]
          exI [of _ target] exI [of _ cs] exI [of _ cs']) simp
  qed
qed

lemmas store_defs =
  transferApp_def addCollaborator_def removeCollaborator_def getApp_def updateApp_def
  addAppPointer_def removeAppPointer_def isOwner_def isCollaborator_def
  isPrototypePollutionKey_def getRejectedPromise_def storageError_def clone_def merge_App_def
  addIsCurrentAccountProperty_def removeIsCurrentAccountProperty_def
  toLowerCase_def toLowerCaseChar_def Permissions_Owner_def Permissions_Collaborator_def
  CollaboratorNotFound_def Let_def

lemmas example_defs =
  exampleStore_def exampleAccount_def exampleApp_def exampleCollaborator_def ownedStore_def

text \<open>
  A round trip between the two owners. Let the app be stored under its own id, and let
  the e-mails given to the two calls be registered to the accounts \<open>otherId\<close> and
  \<open>ownerId\<close>. When \<^verbatim>\<open>transferApp\<close> requested by \<open>ownerId\<close> for the other account's e-mail
  succeeds and then \<^verbatim>\<open>transferApp\<close> requested by \<open>otherId\<close> for the first account's
  e-mail succeeds, the stored app gives the first account's e-mail the permission Owner
  and the other account's e-mail the permission Collaborator.
\<close>

theorem transferApp_round_trip:
  assumes "apps st appId = Some app" and "app_id app = appId"
    and "accounts st ownerId = Some ownerAccount"
    and "accounts st otherId = Some otherAccount"
    and "emailToAccountMap st (toLowerCase otherEmail) = Some otherId"
    and "emailToAccountMap st (toLowerCase ownerEmail) = Some ownerId"
    and "transferApp st ownerId appId otherEmail = (Inr (), st1)"
    and "transferApp st1 otherId appId ownerEmail = (Inr (), st2)"
  shows "\<exists>app2 cs2. apps st2 appId = Some app2 \<and> app_collaborators app2 = Some cs2
      \<and> permissionOf cs2 (acc_email ownerAccount) = Some Permissions_Owner
      \<and> permissionOf cs2 (acc_email otherAccount) = Some Permissions_Collaborator"
proof -
  let ?a = "acc_email ownerAccount" and ?b = "acc_email otherAccount"
  from transferApp_success [OF assms(7)] assms(1-5) obtain cs cs1 where
    cs: "app_collaborators app = Some cs"
    and apps1: "apps st1 = (apps st)(appId \<mapsto> app\<lparr>app_collaborators := Some cs1\<rparr>)"
    and perm1: "permissionOf cs1 =
        (permissionOf cs)(?a \<mapsto> Permissions_Collaborator, ?b \<mapsto> Permissions_Owner)"
    and same1: "accounts st1 = accounts st" "emailToAccountMap st1 = emailToAccountMap st"
    by auto
  have app1: "apps st1 appId = Some (app\<lparr>app_collaborators := Some cs1\<rparr>)"
    using apps1 by simp
  from transferApp_success [OF assms(8)] app1 assms(2-6) same1 obtain cs2 where
    notOwner: "permissionOf cs1 ?a \<noteq> Some Permissions_Owner"
    and apps2: "apps st2 = (apps st1)(appId \<mapsto> app\<lparr>app_collaborators := Some cs2\<rparr>)"
    and perm2: "permissionOf cs2 =
        (permissionOf cs1)(?b \<mapsto> Permissions_Collaborator, ?a \<mapsto> Permissions_Owner)"
    by auto
  from notOwner perm1 have "?a \<noteq> ?b" by auto
  with perm2 have "permissionOf cs2 ?a = Some Permissions_Owner"
    "permissionOf cs2 ?b = Some Permissions_Collaborator"
    by auto
  with apps2 show ?thesis by simp
qed

theorem transferApp_round_trip_witness:
  "apps ownedStore ''id_3'' =
     Some (exampleApp ''id_3'' ''foo'' [(''a@x'', exampleCollaborator ''id_0'' ''Owner'')])
   \<and> app_id (exampleApp ''id_3'' ''foo'' [(''a@x'', exampleCollaborator ''id_0'' ''Owner'')]) = ''id_3''
   \<and> accounts ownedStore ''id_0'' = Some (exampleAccount ''id_0'' ''a@x'')
   \<and> accounts ownedStore ''id_1'' = Some (exampleAccount ''id_1'' ''b@x'')
   \<and> emailToAccountMap ownedStore (toLowerCase ''b@x'') = Some ''id_1''
   \<and> emailToAccountMap ownedStore (toLowerCase ''a@x'') = Some ''id_0''
   \<and> fst (transferApp ownedStore ''id_0'' ''id_3'' ''b@x'') = Inr ()
   \<and> fst (transferApp (snd (transferApp ownedStore ''id_0'' ''id_3'' ''b@x''))
             ''id_1'' ''id_3'' ''a@x'') = Inr ()
   \<and> (\<exists>app2 cs2.
         apps (snd (transferApp (snd (transferApp ownedStore ''id_0'' ''id_3'' ''b@x''))
                      ''id_1'' ''id_3'' ''a@x'')) ''id_3'' = Some app2
         \<and> app_collaborators app2 = Some cs2
         \<and> permissionOf cs2 ''a@x'' = Some ''Owner''
         \<and> permissionOf cs2 ''b@x'' = Some ''Collaborator'')"
proof -
  let ?st1 = "snd (transferApp ownedStore ''id_0'' ''id_3'' ''b@x'')"
  let ?st2 = "snd (transferApp ?st1 ''id_1'' ''id_3'' ''a@x'')"
  have h1: "apps ownedStore ''id_3'' =
     Some (exampleApp ''id_3'' ''foo'' [(''a@x'', exampleCollaborator ''id_0'' ''Owner'')])"
    by (simp add: example_defs)
  have h2: "app_id (exampleApp ''id_3'' ''foo'' [(''a@x'', exampleCollaborator ''id_0'' ''Owner'')]) = ''id_3''"
    by (simp add: example_defs)
  have h3: "accounts ownedStore ''id_0'' = Some (exampleAccount ''id_0'' ''a@x'')"
    by (simp add: example_defs)
  have h4: "accounts ownedStore ''id_1'' = Some (exampleAccount ''id_1'' ''b@x'')"
    by (simp add: example_defs)
  have h5: "emailToAccountMap ownedStore (toLowerCase ''b@x'') = Some ''id_1''"
    by (simp add: example_defs store_defs)
  have h6: "emailToAccountMap ownedStore (toLowerCase ''a@x'') = Some ''id_0''"
    by (simp add: example_defs store_defs)
  have f1: "fst (transferApp ownedStore ''id_0'' ''id_3'' ''b@x'') = Inr ()"
    by (simp add: example_defs store_defs)
  have f2: "fst (transferApp ?st1 ''id_1'' ''id_3'' ''a@x'') = Inr ()"
    by (simp add: example_defs store_defs)
  have r1: "transferApp ownedStore ''id_0'' ''id_3'' ''b@x'' = (Inr (), ?st1)"
    using f1 by (simp add: prod_eq_iff)
  have r2: "transferApp ?st1 ''id_1'' ''id_3'' ''a@x'' = (Inr (), ?st2)"
    using f2 by (simp add: prod_eq_iff)
  from transferApp_round_trip [OF h1 h2 h3 h4 h5 h6 r1 r2] h1 h2 h3 h4 h5 h6 f1 f2
  show ?thesis
    by (simp add: exampleAccount_def Permissions_Owner_def Permissions_Collaborator_def)
qed

text \<open>
  C9. The requester of a transfer is not tested, so the transfer back also succeeds when
  the former owner requests it. On an app that a@x owns, a@x transfers the app to b@x and
  then, again as the requester, back to a@x: both calls succeed, the second sets the
  requester's own entry to Collaborator and then to Owner, and b@x keeps the permission
  Owner, where the specification has Collaborator for it.
\<close>

theorem transferApp_back_by_former_owner:
  "fst (transferApp ownedStore ''id_0'' ''id_3'' ''b@x'') = Inr ()
   \<and> map_option app_collaborators
        (apps (snd (transferApp ownedStore ''id_0'' ''id_3'' ''b@x'')) ''id_3'') =
       Some (Some [(''a@x'', exampleCollaborator ''id_0'' ''Collaborator''),
                   (''b@x'', exampleCollaborator ''id_1'' ''Owner'')])
   \<and> fst (transferApp (snd (transferApp ownedStore ''id_0'' ''id_3'' ''b@x''))
             ''id_0'' ''id_3'' ''a@x'') = Inr ()
   \<and> map_option app_collaborators
        (apps (snd (transferApp (snd (transferApp ownedStore ''id_0'' ''id_3'' ''b@x''))
                      ''id_0'' ''id_3'' ''a@x'')) ''id_3'') =
       Some (Some [(''a@x'', exampleCollaborator ''id_0'' ''Owner''),
                   (''b@x'', exampleCollaborator ''id_1'' ''Owner'')])"
  by (simp add: store_defs example_defs)

subsection \<open>Removing a collaborator\<close>

lemma isOwner_flagged:
  "isOwner (app_collaborators (addIsCurrentAccountProperty app accountId)) email
     = isOwner (app_collaborators app) email"
proof (cases "app_collaborators app")
  case None
  then show ?thesis by (simp add: addIsCurrentAccountProperty_def)
next
  case (Some cs)
  from addIsCurrentAccountProperty_collaborators [OF Some, of accountId] Some
  show ?thesis by (auto simp: isOwner_permissionOf)
qed

lemma isCollaborator_flagged:
  "isCollaborator (app_collaborators (addIsCurrentAccountProperty app accountId)) email
     = isCollaborator (app_collaborators app) email"
proof (cases "app_collaborators app")
  case None
  then show ?thesis by (simp add: addIsCurrentAccountProperty_def)
next
  case (Some cs)
  from addIsCurrentAccountProperty_collaborators [OF Some, of accountId] Some
  show ?thesis by (auto simp: isCollaborator_permissionOf)
qed

lemma updateApp_found:
  assumes "accounts st accountId = Some account" and "apps st (app_id app) = Some stored"
    and "app_collaborators app = Some cs"
  shows "\<exists>cs1. updateApp st accountId app =
           (Inr (), st\<lparr>apps := (apps st)(app_id app \<mapsto> app\<lparr>app_collaborators := Some cs1\<rparr>)\<rparr>)
         \<and> map fst cs1 = map fst cs \<and> permissionOf cs1 = permissionOf cs"
proof -
  obtain result st' where run: "updateApp st accountId app = (result, st')"
    by (cases "updateApp st accountId app")
  have "result = Inr ()"
    using run assms(1,2) by (auto simp: updateApp_def)
  with updateApp_result [OF run assms(3)] run show ?thesis by auto
qed

text \<open>
  C5. For a stored account and a stored app, \<^verbatim>\<open>removeCollaborator\<close> fails with
  \<^verbatim>\<open>AlreadyExists\<close> when the e-mail's entry has the permission Owner, and with \<^verbatim>\<open>NotFound\<close>
  when the e-mail is neither Owner nor Collaborator on the app; in both cases the store is
  unchanged. When the e-mail is a Collaborator (on a store whose indices are consistent:
  the e-mail is registered to an account that has a list of apps, and the app is stored
  under its own id) the call succeeds: the first occurrence of the app is removed from
  that account's list of apps, the entry of the e-mail is removed from the collaborator
  map, every other key keeps its place and its permission, and whoever was Owner still is.
\<close>

theorem removeCollaborator_outcomes:
  assumes "accounts st accountId = Some account" and "apps st appId = Some app"
  shows "(isOwner (app_collaborators app) email \<longrightarrow>
            removeCollaborator st accountId appId email =
              (Inl (StorageError AlreadyExists None), st))
       \<and> (\<not> isOwner (app_collaborators app) email
            \<and> \<not> isCollaborator (app_collaborators app) email \<longrightarrow>
            removeCollaborator st accountId appId email =
              (Inl (StorageError NotFound None), st))
       \<and> (isCollaborator (app_collaborators app) email \<and> app_id app = appId
            \<and> emailToAccountMap st (toLowerCase email) = Some targetId \<and> targetId \<noteq> []
            \<and> accountToAppsMap st targetId = Some accountApps \<longrightarrow>
            (\<exists>cs cs'. app_collaborators app = Some cs
               \<and> removeCollaborator st accountId appId email =
                   (Inr (),
                    st\<lparr>accountToAppsMap :=
                          (accountToAppsMap st)(targetId \<mapsto> remove1 appId accountApps),
                        apps := (apps st)(appId \<mapsto> app\<lparr>app_collaborators := Some cs'\<rparr>)\<rparr>)
               \<and> map fst cs' = removeAll email (map fst cs)
               \<and> permissionOf cs' = (permissionOf cs)(email := None)
               \<and> (\<forall>owner. isOwner (Some cs) owner \<longrightarrow> isOwner (Some cs') owner)))"
proof -
  let ?app = "addIsCurrentAccountProperty app accountId"
  note got = getApp_found [OF assms]
  have owner: "removeCollaborator st accountId appId email =
              (Inl (StorageError AlreadyExists None), st)"
    if "isOwner (app_collaborators app) email"
    using that got
    by (simp add: removeCollaborator_def isOwner_flagged getRejectedPromise_def storageError_def)
  have missing: "removeCollaborator st accountId appId email =
              (Inl (StorageError NotFound None), st)"
    if "\<not> isOwner (app_collaborators app) email" "\<not> isCollaborator (app_collaborators app) email"
    using that got
    by (simp add: removeCollaborator_def isOwner_flagged isCollaborator_flagged
        getRejectedPromise_def storageError_def)
  have removed: "\<exists>cs cs'. app_collaborators app = Some cs
               \<and> removeCollaborator st accountId appId email =
                   (Inr (),
                    st\<lparr>accountToAppsMap :=
                          (accountToAppsMap st)(targetId \<mapsto> remove1 appId accountApps),
                        apps := (apps st)(appId \<mapsto> app\<lparr>app_collaborators := Some cs'\<rparr>)\<rparr>)
               \<and> map fst cs' = removeAll email (map fst cs)
               \<and> permissionOf cs' = (permissionOf cs)(email := None)
               \<and> (\<forall>owner. isOwner (Some cs) owner \<longrightarrow> isOwner (Some cs') owner)"
    if collab: "isCollaborator (app_collaborators app) email" and id: "app_id app = appId"
      and target: "emailToAccountMap st (toLowerCase email) = Some targetId" "targetId \<noteq> []"
      and list: "accountToAppsMap st targetId = Some accountApps"
  proof -
    from collab obtain cs where cs: "app_collaborators app = Some cs"
      by (cases "app_collaborators app") (auto simp: isCollaborator_def)
    from addIsCurrentAccountProperty_collaborators [OF cs, of accountId] obtain cs1 where
      cs1: "app_collaborators ?app = Some cs1" "map fst cs1 = map fst cs"
        "permissionOf cs1 = permissionOf cs"
      by blast
    let ?st1 = "st\<lparr>accountToAppsMap := (accountToAppsMap st)(targetId \<mapsto> remove1 appId accountApps)\<rparr>"
    let ?upd = "?app\<lparr>app_collaborators := Some (AList.delete email cs1)\<rparr>"
    have notOwner: "\<not> isOwner (app_collaborators app) email"
      using collab cs Owner_neq_Collaborator
      by (auto simp: isOwner_permissionOf isCollaborator_permissionOf)
    have flagged: "\<not> isOwner (Some cs1) email" "isCollaborator (Some cs1) email"
      using collab notOwner isOwner_flagged [of app accountId email]
        isCollaborator_flagged [of app accountId email] cs1(1)
      by simp_all
    have step: "removeCollaborator st accountId appId email = updateApp ?st1 accountId ?upd"
      using got flagged target list cs1(1)
      by (simp add: removeCollaborator_def removeAppPointer_def)
    have "accounts ?st1 accountId = Some account" "apps ?st1 (app_id ?upd) = Some app"
      "app_collaborators ?upd = Some (AList.delete email cs1)"
      using assms id by (simp_all add: addIsCurrentAccountProperty_fields)
    from updateApp_found [OF this] obtain cs' where
      upd: "updateApp ?st1 accountId ?upd =
           (Inr (), ?st1\<lparr>apps := (apps ?st1)(app_id ?upd \<mapsto> ?upd\<lparr>app_collaborators := Some cs'\<rparr>)\<rparr>)"
      and keys: "map fst cs' = map fst (AList.delete email cs1)"
      and perm: "permissionOf cs' = permissionOf (AList.delete email cs1)"
      by blast
    have run: "removeCollaborator st accountId appId email =
                   (Inr (),
                    st\<lparr>accountToAppsMap :=
                          (accountToAppsMap st)(targetId \<mapsto> remove1 appId accountApps),
                        apps := (apps st)(appId \<mapsto> app\<lparr>app_collaborators := Some cs'\<rparr>)\<rparr>)"
      using step upd id
      by (simp add: addIsCurrentAccountProperty_fields addIsCurrentAccountProperty_overwrite)
    have keys': "map fst cs' = removeAll email (map fst cs)"
      using keys cs1(2) by (simp add: delete_keys)
    have perm': "permissionOf cs' = (permissionOf cs)(email := None)"
      using perm cs1(3) by (simp add: permissionOf_delete)
    have "isOwner (Some cs') owner" if "isOwner (Some cs) owner" for owner
      using that notOwner cs perm' by (auto simp: isOwner_permissionOf)
    with cs run keys' perm' show ?thesis by blast
  qed
  from owner missing removed show ?thesis by blast
qed


theorem removeCollaborator_outcomes_witness:
  "accounts sharedStore ''id_0'' = Some (exampleAccount ''id_0'' ''a@x'')
   \<and> apps sharedStore ''id_3'' =
       Some (exampleApp ''id_3'' ''foo''
               [(''a@x'', exampleCollaborator ''id_0'' ''Owner''),
                (''b@x'', exampleCollaborator ''id_1'' ''Collaborator'')])
   \<and> removeCollaborator sharedStore ''id_0'' ''id_3'' ''a@x'' =
       (Inl (StorageError AlreadyExists None), sharedStore)
   \<and> removeCollaborator sharedStore ''id_0'' ''id_3'' ''c@x'' =
       (Inl (StorageError NotFound None), sharedStore)
   \<and> emailToAccountMap sharedStore (toLowerCase ''b@x'') = Some ''id_1''
   \<and> accountToAppsMap sharedStore ''id_1'' = Some [''id_3'']
   \<and> fst (removeCollaborator sharedStore ''id_0'' ''id_3'' ''b@x'') = Inr ()
   \<and> apps (snd (removeCollaborator sharedStore ''id_0'' ''id_3'' ''b@x'')) ''id_3'' =
       Some (exampleApp ''id_3'' ''foo'' [(''a@x'', exampleCollaborator ''id_0'' ''Owner'')])
   \<and> accountToAppsMap (snd (removeCollaborator sharedStore ''id_0'' ''id_3'' ''b@x'')) ''id_1'' =
       Some []"
proof -
  let ?cs = "[(''a@x'', exampleCollaborator ''id_0'' ''Owner''),
              (''b@x'', exampleCollaborator ''id_1'' ''Collaborator'')]"
  let ?app = "exampleApp ''id_3'' ''foo'' ?cs"
  have account: "accounts sharedStore ''id_0'' = Some (exampleAccount ''id_0'' ''a@x'')"
    by (simp add: sharedStore_def exampleStore_def)
  have app: "apps sharedStore ''id_3'' = Some ?app"
    by (simp add: sharedStore_def)
  have a: "isOwner (app_collaborators ?app) ''a@x''"
    by (simp add: isOwner_def exampleApp_def exampleCollaborator_def Permissions_Owner_def)
  have c: "\<not> isOwner (app_collaborators ?app) ''c@x''
      \<and> \<not> isCollaborator (app_collaborators ?app) ''c@x''"
    by (simp add: isOwner_def isCollaborator_def exampleApp_def)
  have b: "isCollaborator (app_collaborators ?app) ''b@x'' \<and> app_id ?app = ''id_3''
      \<and> emailToAccountMap sharedStore (toLowerCase ''b@x'') = Some ''id_1'' \<and> ''id_1'' \<noteq> []
      \<and> accountToAppsMap sharedStore ''id_1'' = Some [''id_3'']"
    by (simp add: isCollaborator_def exampleApp_def exampleCollaborator_def
        Permissions_Collaborator_def sharedStore_def exampleStore_def
        toLowerCase_def toLowerCaseChar_def)
  note owner = removeCollaborator_outcomes [OF account app, of "''a@x''" "''id_1''" "[''id_3'']"]
  note stranger = removeCollaborator_outcomes [OF account app, of "''c@x''" "''id_1''" "[''id_3'']"]
  note member = removeCollaborator_outcomes [OF account app, of "''b@x''" "''id_1''" "[''id_3'']"]
  have r1: "removeCollaborator sharedStore ''id_0'' ''id_3'' ''a@x'' =
       (Inl (StorageError AlreadyExists None), sharedStore)"
    using owner a by blast
  have r2: "removeCollaborator sharedStore ''id_0'' ''id_3'' ''c@x'' =
       (Inl (StorageError NotFound None), sharedStore)"
    using stranger c by blast
  from member b obtain cs' where
    run: "removeCollaborator sharedStore ''id_0'' ''id_3'' ''b@x'' =
       (Inr (), sharedStore\<lparr>accountToAppsMap :=
            (accountToAppsMap sharedStore)(''id_1'' \<mapsto> remove1 ''id_3'' [''id_3'']),
          apps := (apps sharedStore)(''id_3'' \<mapsto> ?app\<lparr>app_collaborators := Some cs'\<rparr>)\<rparr>)"
    by blast
  have r3: "fst (removeCollaborator sharedStore ''id_0'' ''id_3'' ''b@x'') = Inr ()"
    and r5: "accountToAppsMap (snd (removeCollaborator sharedStore ''id_0'' ''id_3'' ''b@x'')) ''id_1'' =
       Some []"
    using run by simp_all
  have r4: "apps (snd (removeCollaborator sharedStore ''id_0'' ''id_3'' ''b@x'')) ''id_3'' =
       Some (exampleApp ''id_3'' ''foo'' [(''a@x'', exampleCollaborator ''id_0'' ''Owner'')])"
    by (simp add: store_defs example_defs sharedStore_def)
  from account app r1 r2 b r3 r4 r5 show ?thesis by simp
qed

subsection \<open>The denylist of keys\<close>

text \<open>The guard of \<^verbatim>\<open>addCollaborator\<close> and \<^verbatim>\<open>transferApp\<close> comes first and touches nothing.\<close>

lemma addCollaborator_rejects_pollution_key:
  "isPrototypePollutionKey email \<Longrightarrow>
   addCollaborator st accountId appId email =
     (Inl (StorageError Invalid (Some ''Invalid email parameter'')), st)"
  by (simp add: addCollaborator_def getRejectedPromise_def storageError_def)

lemma transferApp_rejects_pollution_key:
  "isPrototypePollutionKey email \<Longrightarrow>
   transferApp st accountId appId email =
     (Inl (StorageError Invalid (Some ''Invalid email parameter'')), st)"
  by (simp add: transferApp_def getRejectedPromise_def storageError_def)

lemma updateApp_never_Invalid:
  "fst (updateApp st accountId app) \<noteq> Inl (StorageError Invalid message)"
  by (auto simp: updateApp_def getRejectedPromise_def storageError_def split: option.splits)

lemma removeCollaborator_never_Invalid:
  "fst (removeCollaborator st accountId appId email) \<noteq> Inl (StorageError Invalid message)"
  by (auto simp: removeCollaborator_def getApp_def removeAppPointer_def Let_def
      getRejectedPromise_def storageError_def updateApp_never_Invalid
      split: option.splits sum.splits)

text \<open>
  C6. \<^verbatim>\<open>removeCollaborator\<close> has no such guard. On a store that holds the account and
  the app, each of the three keys \<^verbatim>\<open>__proto__\<close>, \<^verbatim>\<open>constructor\<close> and \<^verbatim>\<open>prototype\<close> goes
  through the lookups of the collaborator map and of the e-mail index, and the call is
  rejected with \<^verbatim>\<open>NotFound\<close> (the store unchanged), where the specification has \<^verbatim>\<open>Invalid\<close>.
\<close>

theorem removeCollaborator_pollution_key_NotFound:
  "isPrototypePollutionKey ''__proto__''
   \<and> removeCollaborator sharedStore ''id_0'' ''id_3'' ''__proto__'' =
       (Inl (StorageError NotFound None), sharedStore)
   \<and> isPrototypePollutionKey ''constructor''
   \<and> removeCollaborator sharedStore ''id_0'' ''id_3'' ''constructor'' =
       (Inl (StorageError NotFound None), sharedStore)
   \<and> isPrototypePollutionKey ''prototype''
   \<and> removeCollaborator sharedStore ''id_0'' ''id_3'' ''prototype'' =
       (Inl (StorageError NotFound None), sharedStore)"
  by (simp add: store_defs example_defs sharedStore_def)

theorem removeCollaborator_pollution_key_NotFound_witness:
  "fst (removeCollaborator sharedStore ''id_0'' ''id_3'' ''__proto__'')
     \<noteq> Inl (StorageError Invalid (Some ''Invalid email parameter''))"
  using removeCollaborator_pollution_key_NotFound by simp

subsection \<open>Id chains\<close>

text \<open>
  C3. \<^verbatim>\<open>getDeployment\<close> looks each id up on its own and \<^verbatim>\<open>clearPackageHistory\<close> only the
  deployment's. In a store where app id_3 belongs to account id_0 and deployment id_4 to
  app id_3: \<^verbatim>\<open>getDeployment\<close> called with account id_1 and app id_3, and with account
  id_1 and its own app id_5, returns deployment id_4 both times, and
  \<^verbatim>\<open>clearPackageHistory\<close> called with an account and an app that do not exist clears the
  history of deployment id_4. The specification has \<^verbatim>\<open>NotFound\<close> for each of the three calls.
\<close>

theorem getDeployment_ignores_chain:
  "appToAccountMap chainStore ''id_3'' = Some ''id_0''
   \<and> deploymentToAppMap chainStore ''id_4'' = Some ''id_3''
   \<and> getDeployment chainStore ''id_1'' ''id_3'' ''id_4'' =
       Inr (exampleDeployment ''id_4'' [examplePackage ''h1'' (Some ''v1'') (Some 50)])
   \<and> getDeployment chainStore ''id_1'' ''id_5'' ''id_4'' =
       Inr (exampleDeployment ''id_4'' [examplePackage ''h1'' (Some ''v1'') (Some 50)])
   \<and> accounts chainStore ''id_9'' = None \<and> apps chainStore ''id_8'' = None
   \<and> clearPackageHistory chainStore ''id_9'' ''id_8'' ''id_4'' =
       (Inr (), chainStore\<lparr>deployments := [''id_4'' \<mapsto>
           (exampleDeployment ''id_4'' [examplePackage ''h1'' (Some ''v1'') (Some 50)])
             \<lparr>dep_package := None, dep_packageHistory := []\<rparr>]\<rparr>)"
  by (simp add: getDeployment_def clearPackageHistory_def chainStore_def deploymentStore_def
      exampleStore_def clone_def)

subsection \<open>Collections of children\<close>

text \<open>What the three collection reads do, by the index they consult.\<close>

lemma getApps_by_index:
  "accountToAppsMap st accountId = Some [] \<Longrightarrow> getApps st accountId = Inr []"
  "accountToAppsMap st accountId = None \<Longrightarrow>
     getApps st accountId = Inl (StorageError NotFound None)"
  by (simp_all add: getApps_def clone_def getRejectedPromise_def storageError_def)

lemma getDeployments_by_index:
  "accounts st accountId = Some account \<Longrightarrow> appToDeploymentsMap st appId = Some [] \<Longrightarrow>
     getDeployments st accountId appId = Inr []"
  "accounts st accountId = None \<or> appToDeploymentsMap st appId = None \<Longrightarrow>
     getDeployments st accountId appId = Inl (StorageError NotFound None)"
  by (auto simp: getDeployments_def clone_def getRejectedPromise_def storageError_def
      split: option.splits)

lemma getAccessKeys_by_index:
  "accountToAccessKeysMap st accountId = Some [] \<Longrightarrow> getAccessKeys st accountId = Inr []"
  "accountToAccessKeysMap st accountId = None \<Longrightarrow>
     getAccessKeys st accountId = Inl (StorageError NotFound None)"
  by (simp_all add: getAccessKeys_def clone_def getRejectedPromise_def storageError_def)

text \<open>
  C8. \<^verbatim>\<open>getAccessKeys\<close> consults only the account's list of access keys, which no
  operation creates before the account's first \<^verbatim>\<open>addAccessKey\<close>. For a stored account
  that has no access key and no such list the call is rejected with \<^verbatim>\<open>NotFound\<close>, where
  the specification has the empty sequence.
\<close>

theorem getAccessKeys_without_keys_NotFound:
  "accounts exampleStore ''id_0'' = Some (exampleAccount ''id_0'' ''a@x'')
   \<and> accountToAccessKeysMap exampleStore ''id_0'' = None
   \<and> getAccessKeys exampleStore ''id_0'' = Inl (StorageError NotFound None)"
  by (simp add: getAccessKeys_def exampleStore_def getRejectedPromise_def storageError_def)

subsection \<open>The number of owners\<close>

text \<open>
  C2. Two runs of successful operations that leave an app without exactly one Owner.
  The account a@x creates an app with \<^verbatim>\<open>addApp\<close> and then adds the collaborator
  \<^verbatim>\<open>A@X\<close>: the checks read the map under the e-mail as given, the assignment writes under
  the e-mail as stored on the account, and the Owner entry becomes a Collaborator entry,
  so the app has no Owner. On an app with Owner a@x and Collaborator b@x, the account
  b@x transfers the app to c@x: the requester's entry stays Collaborator, c@x becomes
  Owner and a@x still is, so the app has two Owners.
\<close>

theorem addCollaborator_overwrites_owner:
  "fst (addApp exampleStore ''id_0'' (exampleApp '''' ''foo'' [])) =
     Inr (exampleApp ''id_3'' ''foo'' [(''a@x'', exampleCollaborator ''id_0'' ''Owner'')])
   \<and> fst (addCollaborator (snd (addApp exampleStore ''id_0'' (exampleApp '''' ''foo'' [])))
            ''id_0'' ''id_3'' ''A@X'') = Inr ()
   \<and> map_option app_collaborators
        (apps (snd (addCollaborator (snd (addApp exampleStore ''id_0'' (exampleApp '''' ''foo'' [])))
                      ''id_0'' ''id_3'' ''A@X'')) ''id_3'') =
       Some (Some [(''a@x'', exampleCollaborator ''id_0'' ''Collaborator'')])
   \<and> fst (transferApp sharedStore ''id_1'' ''id_3'' ''c@x'') = Inr ()
   \<and> map_option app_collaborators
        (apps (snd (transferApp sharedStore ''id_1'' ''id_3'' ''c@x'')) ''id_3'') =
       Some (Some [(''a@x'', exampleCollaborator ''id_0'' ''Owner''),
                   (''b@x'', exampleCollaborator ''id_1'' ''Collaborator''),
                   (''c@x'', exampleCollaborator ''id_2'' ''Owner'')])"
  by (simp add: addApp_def newId_def store_defs example_defs sharedStore_def
      nat_to_string.simps)

end
